theory Spec2Isabelle
  imports Main
begin

section \<open>The presentation-narration pipeline of \<open>streamlit_app.py\<close>\<close>

text \<open>
  The program reads the text of every slide of an uploaded presentation, asks a remote
  language model for one narration script per slide, turns every script into an audio
  file with a remote text-to-speech service, shows scripts and audio, and removes its
  temporary files. The remote services, the document parser, the random names and the
  temp directory are collaborators of the program: they are parameters of the model
  (record \<open>collaborators\<close>). Everything the program does to the outside is recorded in an
  explicit \<open>world\<close> that each operation takes and returns.
\<close>

subsection \<open>Presentations: slides, shapes, optional text\<close>

text \<open>
  A shape may or may not have a \<open>text\<close> attribute (\<open>hasattr(shape, "text")\<close>); the field is
  \<open>None\<close> when it has none. The records are used through their schemes, so a shape, a
  slide and a presentation may carry any further attributes.
\<close>

record shape =
  shape_text :: "string option"

record 'z slide =
  shapes :: "'z shape_scheme list"

record ('z, 'y) presentation =
  slides :: "('z, 'y) slide_scheme list"

text \<open>\<open>sep.join(list)\<close> of Python.\<close>

fun str_join :: "string \<Rightarrow> string list \<Rightarrow> string" where
  "str_join sep [] = []"
| "str_join sep [x] = x"
| "str_join sep (x # y # ys) = x @ sep @ str_join sep (y # ys)"

text \<open>The inner loop of \<open>extract_slide_text\<close>: \<open>slide_text\<close> is the list built so far.\<close>

fun collect_shape_texts :: "'z shape_scheme list \<Rightarrow> string list \<Rightarrow> string list" where
  "collect_shape_texts [] slide_text = slide_text"
| "collect_shape_texts (shape # rest) slide_text =
     (case shape_text shape of
        Some t \<Rightarrow> collect_shape_texts rest (slide_text @ [t])
      | None \<Rightarrow> collect_shape_texts rest slide_text)"

text \<open>The outer loop: \<open>slide_texts\<close> is the list built so far.\<close>

fun extract_slides :: "('z, 'y) slide_scheme list \<Rightarrow> string list \<Rightarrow> string list" where
  "extract_slides [] slide_texts = slide_texts"
| "extract_slides (slide # rest) slide_texts =
     extract_slides rest
       (slide_texts @ [str_join '' '' (collect_shape_texts (shapes slide) [])])"

definition extract_slide_text :: "('z, 'y, 'x) presentation_scheme \<Rightarrow> string list" where
  "extract_slide_text presentation = extract_slides (slides presentation) []"

text \<open>
  The texts of the shapes of a slide that have a text attribute, in shape order: the
  reading of the extractor that its contract is stated with.
\<close>

definition text_bearing :: "'z shape_scheme list \<Rightarrow> string list" where
  "text_bearing shs =
     map (\<lambda>sh. the (shape_text sh)) (filter (\<lambda>sh. shape_text sh \<noteq> None) shs)"

subsection \<open>Names of audio files\<close>

text \<open>\<open>str(i)\<close> of a non-negative Python integer: its decimal digits.\<close>

definition digit_char :: "nat \<Rightarrow> char" where
  "digit_char d = ''0123456789'' ! d"

function str_nat :: "nat \<Rightarrow> string" where
  "str_nat n =
     (if n < 10 then [digit_char n] else str_nat (n div 10) @ [digit_char (n mod 10)])"
  by pat_completeness auto
termination
  by (relation "measure id") auto

declare str_nat.simps [simp del]

text \<open>The f-string \<open>f"slide_{i}_{uuid.uuid4()}.mp3"\<close>; \<open>u\<close> is the identifier as text.\<close>

definition audio_filename :: "nat \<Rightarrow> string \<Rightarrow> string" where
  "audio_filename i u = ''slide_'' @ str_nat i @ ''_'' @ u @ ''.mp3''"

text \<open>\<open>os.path.join\<close> of two components (POSIX).\<close>

definition os_path_join :: "string \<Rightarrow> string \<Rightarrow> string" where
  "os_path_join a b =
     (if b \<noteq> [] \<and> hd b = CHR ''/'' then b
      else if a = [] \<or> last a = CHR ''/'' then a @ b
      else a @ ''/'' @ b)"

subsection \<open>Exceptions, requests, the user interface\<close>

text \<open>A Python exception, with the text that \<open>str(e)\<close> gives.\<close>

datatype exn = Exception string

fun str_exn :: "exn \<Rightarrow> string" where
  "str_exn (Exception msg) = msg"

text \<open>A name or a path in single quotes, as Python prints it inside a message.\<close>

definition quoted :: "string \<Rightarrow> string" where
  "quoted s = CHR 0x27 # s @ [CHR 0x27]"

type_synonym bytes = string
type_synonym path = string

text \<open>A content block of a model response; only some blocks have a \<open>text\<close> attribute.\<close>

datatype block = TextBlock string | ToolUseBlock

record message =
  role :: string
  content :: string

record llm_request =
  request_model :: string
  max_tokens :: nat
  messages :: "message list"

text \<open>
  What the program shows. \<open>St_progress i n\<close> is the fraction \<open>i / n\<close>; the title and the
  header carry fixed texts and are recorded without them.
\<close>

datatype ui_event =
    St_set_page_config
  | St_title
  | St_error string
  | St_progress nat nat
  | St_header
  | St_subheader string
  | St_write string
  | St_audio path

subsection \<open>Collaborators and the world\<close>

text \<open>
  The collaborators may answer differently at each call, so the remote services take
  the number of calls made before: \<open>messages_create k key request\<close> is the answer of the
  language model to the \<open>k\<close>-th request, \<open>gTTS_result k text lang\<close> the outcome of the
  \<open>k\<close>-th synthesis: \<open>Inr audio\<close> when the audio was saved; \<open>Inl (ex, None)\<close> when the
  constructor \<open>gTTS(...)\<close> raised \<open>ex\<close>, before any file was opened; \<open>Inl (ex, Some part)\<close>
  when \<open>tts.save\<close> raised \<open>ex\<close> after it had opened its file and written \<open>part\<close> to it
  (nothing, when the first request of the text failed). \<open>uuid4 k\<close> and \<open>random_name k\<close> are
  the \<open>k\<close>-th random names drawn; \<open>load_pptx\<close> parses the bytes of a document.
\<close>

record collaborators =
  messages_create :: "nat \<Rightarrow> string \<Rightarrow> llm_request \<Rightarrow> exn + block list"
  gTTS_result :: "nat \<Rightarrow> string \<Rightarrow> string \<Rightarrow> (exn \<times> bytes option) + bytes"
  uuid4 :: "nat \<Rightarrow> string"
  gettempdir :: string
  random_name :: "nat \<Rightarrow> string"
  load_pptx :: "bytes \<Rightarrow> exn + (unit, unit) presentation"

text \<open>
  The world: the files that exist (\<open>fs\<close>), every path a file was written to (\<open>created\<close>,
  never shortened), the requests sent to the language model, the synthesis calls as
  (text, language, file to save to), what was shown, and the number of random names drawn.
\<close>

record world =
  fs :: "path \<rightharpoonup> bytes"
  created :: "path list"
  llm_log :: "llm_request list"
  tts_log :: "(string \<times> string \<times> path) list"
  ui :: "ui_event list"
  draws :: nat

definition st_emit :: "ui_event \<Rightarrow> world \<Rightarrow> world" where
  "st_emit ev w = w\<lparr>ui := ui w @ [ev]\<rparr>"

subsection \<open>The script generator\<close>

text \<open>The client is known by its key.\<close>

record ClaudePPTScriptGenerator =
  client :: string
  model :: string

definition ClaudePPTScriptGenerator_init :: "string \<Rightarrow> ClaudePPTScriptGenerator" where
  "ClaudePPTScriptGenerator_init key =
     \<lparr>client = key, model = ''claude-3-5-sonnet-20240620''\<rparr>"

definition script_prompt :: "string \<Rightarrow> string" where
  "script_prompt slide_text =
     ''Create a professional, engaging presentation script for a slide with the following content:\<newline>\<newline>Slide Content: ''
     @ slide_text @
     ''\<newline>\<newline>Requirements:\<newline>- Write in a clear, confident speaking style\<newline>- Provide context and explain key points\<newline>- Use professional language suitable for business or academic presentations\<newline>- Include transitions and highlights\<newline>- Aim for about 2-3 sentences per slide''"

definition script_request :: "ClaudePPTScriptGenerator \<Rightarrow> string \<Rightarrow> llm_request" where
  "script_request self slide_text =
     \<lparr>request_model = model self, max_tokens = 300,
      messages = [\<lparr>role = ''user'', content = script_prompt slide_text\<rparr>]\<rparr>"

text \<open>
  \<open>response.content[0].text\<close>: the call may have raised, the list may be empty
  (IndexError), the first block may have no text (AttributeError).
\<close>

fun first_block_text :: "exn + block list \<Rightarrow> exn + string" where
  "first_block_text (Inl ex) = Inl ex"
| "first_block_text (Inr []) = Inl (Exception ''list index out of range'')"
| "first_block_text (Inr (TextBlock t # _)) = Inr t"
| "first_block_text (Inr (ToolUseBlock # _)) =
     Inl (Exception (quoted ''ToolUseBlock'' @ '' object has no attribute '' @ quoted ''text''))"

text \<open>
  The whole body is inside \<open>try ... except Exception\<close>, so the function returns a string
  on every path.
\<close>

definition generate_slide_script ::
  "collaborators \<Rightarrow> ClaudePPTScriptGenerator \<Rightarrow> string \<Rightarrow> world \<Rightarrow> string \<times> world" where
  "generate_slide_script e self slide_text w =
     (let request = script_request self slide_text;
          w1 = w\<lparr>llm_log := llm_log w @ [request]\<rparr>
      in case first_block_text
                (messages_create e (length (llm_log w)) (client self) request) of
           Inr t \<Rightarrow> (t, w1)
         | Inl ex \<Rightarrow>
             (''Slide content: '' @ slide_text,
              st_emit (St_error (''Error generating script with Claude: '' @ str_exn ex)) w1))"

subsection \<open>The audio synthesizer\<close>

text \<open>
  \<open>gTTS(text=script, lang=voice)\<close> followed by \<open>tts.save(path)\<close>; the call is logged. The
  constructor may raise, and then no file is touched. \<open>save\<close> opens the file for writing
  before it sends its requests, so when it raises the file exists, with whatever was
  written before the failure; when it returns, the file holds the audio.
\<close>

definition gTTS_save ::
  "collaborators \<Rightarrow> string \<Rightarrow> string \<Rightarrow> path \<Rightarrow> world \<Rightarrow> (exn + unit) \<times> world" where
  "gTTS_save e script lang savefile w =
     (let w1 = w\<lparr>tts_log := tts_log w @ [(script, lang, savefile)]\<rparr>
      in case gTTS_result e (length (tts_log w)) script lang of
           Inl (ex, None) \<Rightarrow> (Inl ex, w1)
         | Inl (ex, Some part) \<Rightarrow>
             (Inl ex, w1\<lparr>fs := (fs w1)(savefile \<mapsto> part),
                          created := created w1 @ [savefile]\<rparr>)
         | Inr audio \<Rightarrow>
             (Inr (), w1\<lparr>fs := (fs w1)(savefile \<mapsto> audio),
                          created := created w1 @ [savefile]\<rparr>))"

text \<open>
  The loop of \<open>generate_audio\<close> over \<open>enumerate(scripts, 1)\<close>. An exception leaves the
  loop and the function at once: the list built so far is lost with the frame.
\<close>

fun generate_audio_loop ::
  "collaborators \<Rightarrow> string \<Rightarrow> nat \<Rightarrow> string list \<Rightarrow> path list \<Rightarrow> world
     \<Rightarrow> (exn + path list) \<times> world" where
  "generate_audio_loop e voice i [] audio_files w = (Inr audio_files, w)"
| "generate_audio_loop e voice i (script # rest) audio_files w =
     (let filename = audio_filename i (uuid4 e (draws w));
          w1 = w\<lparr>draws := Suc (draws w)\<rparr>;
          temp_audio_path = os_path_join (gettempdir e) filename
      in case gTTS_save e script voice temp_audio_path w1 of
           (Inl ex, w2) \<Rightarrow> (Inl ex, w2)
         | (Inr _, w2) \<Rightarrow>
             generate_audio_loop e voice (Suc i) rest (audio_files @ [temp_audio_path]) w2)"

definition generate_audio ::
  "collaborators \<Rightarrow> string list \<Rightarrow> string \<Rightarrow> world \<Rightarrow> (exn + path list) \<times> world" where
  "generate_audio e scripts voice w = generate_audio_loop e voice 1 scripts [] w"

subsection \<open>The orchestrator \<open>main\<close>\<close>

text \<open>The keys of \<open>voice_options\<close>, which are all the select box can return.\<close>

datatype voice_name = English_US | Spanish | French | German | Italian | Portuguese

fun voice_options :: "voice_name \<Rightarrow> string" where
  "voice_options English_US = ''en''"
| "voice_options Spanish = ''es''"
| "voice_options French = ''fr''"
| "voice_options German = ''de''"
| "voice_options Italian = ''it''"
| "voice_options Portuguese = ''pt''"

text \<open>What the widgets return in one execution of \<open>main\<close>.\<close>

record inputs =
  api_key :: string
  uploaded_file :: "bytes option"
  selected_voice :: voice_name
  process_button :: bool

text \<open>
  \<open>tempfile.NamedTemporaryFile(delete=False, suffix=".pptx")\<close> with the uploaded bytes
  written to it.
\<close>

definition NamedTemporaryFile_write :: "collaborators \<Rightarrow> bytes \<Rightarrow> world \<Rightarrow> path \<times> world" where
  "NamedTemporaryFile_write e data w =
     (let name = os_path_join (gettempdir e) (''tmp'' @ random_name e (draws w) @ ''.pptx'')
      in (name, w\<lparr>fs := (fs w)(name \<mapsto> data), created := created w @ [name],
                    draws := Suc (draws w)\<rparr>))"

definition Presentation ::
  "collaborators \<Rightarrow> path \<Rightarrow> world \<Rightarrow> exn + (unit, unit) presentation" where
  "Presentation e pptx w =
     (case fs w pptx of
        None \<Rightarrow> Inl (Exception (''Package not found at '' @ quoted pptx))
      | Some data \<Rightarrow> load_pptx e data)"

text \<open>
  The scripting loop over \<open>enumerate(slide_texts)\<close>; \<open>n\<close> is \<open>len(slide_texts)\<close>, the
  denominator of the progress fraction.
\<close>

fun scripting_loop ::
  "collaborators \<Rightarrow> ClaudePPTScriptGenerator \<Rightarrow> nat \<Rightarrow> nat \<Rightarrow> string list \<Rightarrow> string list
     \<Rightarrow> world \<Rightarrow> string list \<times> world" where
  "scripting_loop e script_generator i n [] scripts w = (scripts, w)"
| "scripting_loop e script_generator i n (text # rest) scripts w =
     (let (script, w1) = generate_slide_script e script_generator text w;
          w2 = st_emit (St_progress (i + 1) n) w1
      in scripting_loop e script_generator (Suc i) n rest (scripts @ [script]) w2)"

text \<open>
  The display loop over \<open>enumerate(scripts, 1)\<close>; \<open>audio_files[i-1]\<close> raises IndexError
  out of range.
\<close>

fun display_loop ::
  "nat \<Rightarrow> string list \<Rightarrow> path list \<Rightarrow> world \<Rightarrow> (exn + unit) \<times> world" where
  "display_loop i [] audio_files w = (Inr (), w)"
| "display_loop i (script # rest) audio_files w =
     (let w1 = st_emit (St_subheader (''Slide '' @ str_nat i)) w;
          w2 = st_emit (St_write script) w1
      in if i - 1 < length audio_files
         then display_loop (Suc i) rest audio_files
                (st_emit (St_audio (audio_files ! (i - 1))) w2)
         else (Inl (Exception ''list index out of range''), w2))"

text \<open>\<open>os.unlink\<close> raises when there is no such file.\<close>

definition os_unlink :: "path \<Rightarrow> world \<Rightarrow> (exn + unit) \<times> world" where
  "os_unlink p w =
     (case fs w p of
        None \<Rightarrow> (Inl (Exception (''[Errno 2] No such file or directory: '' @ quoted p)), w)
      | Some _ \<Rightarrow> (Inr (), w\<lparr>fs := (fs w)(p := None)\<rparr>))"

fun unlink_each :: "path list \<Rightarrow> world \<Rightarrow> (exn + unit) \<times> world" where
  "unlink_each [] w = (Inr (), w)"
| "unlink_each (audio_file # rest) w =
     (case os_unlink audio_file w of
        (Inl ex, w1) \<Rightarrow> (Inl ex, w1)
      | (Inr _, w1) \<Rightarrow> unlink_each rest w1)"

text \<open>
  The local variables of \<open>main\<close> when the \<open>try\<close> block is left, and the exception that
  left it, if any. \<open>audio_files\<close> is \<open>None\<close> while the name is unbound, which is what
  \<open>'audio_files' in locals()\<close> tests.
\<close>

record main_locals =
  raised :: "exn option"
  slide_texts :: "string list"
  scripts :: "string list"
  audio_files :: "path list option"

definition main_try ::
  "collaborators \<Rightarrow> ClaudePPTScriptGenerator \<Rightarrow> path \<Rightarrow> string \<Rightarrow> world
     \<Rightarrow> main_locals \<times> world" where
  "main_try e script_generator tmp_file_path voice w =
     (case Presentation e tmp_file_path w of
        Inl ex \<Rightarrow>
          (\<lparr>raised = Some ex, slide_texts = [], scripts = [], audio_files = None\<rparr>, w)
      | Inr presentation \<Rightarrow>
          (let texts = extract_slide_text presentation;
               w1 = st_emit (St_progress 0 1) w;
               (scrs, w2) = scripting_loop e script_generator 0 (length texts) texts [] w1
           in case generate_audio e scrs voice w2 of
                (Inl ex, w3) \<Rightarrow>
                  (\<lparr>raised = Some ex, slide_texts = texts, scripts = scrs,
                    audio_files = None\<rparr>, w3)
              | (Inr files, w3) \<Rightarrow>
                  (case display_loop 1 scrs files (st_emit St_header w3) of
                     (d, w4) \<Rightarrow>
                       (\<lparr>raised = (case d of Inl ex \<Rightarrow> Some ex | Inr _ \<Rightarrow> None),
                         slide_texts = texts, scripts = scrs,
                         audio_files = Some files\<rparr>, w4))))"

text \<open>The \<open>finally\<close> block; \<open>tmp_file_path\<close> is always bound when it runs.\<close>

definition main_finally :: "path \<Rightarrow> path list option \<Rightarrow> world \<Rightarrow> (exn + unit) \<times> world" where
  "main_finally tmp_file_path files w =
     (case os_unlink tmp_file_path w of
        (Inl ex, w1) \<Rightarrow> (Inl ex, w1)
      | (Inr _, w1) \<Rightarrow>
          (case files of
             None \<Rightarrow> (Inr (), w1)
           | Some fl \<Rightarrow> unlink_each fl w1))"

text \<open>
  How one execution of \<open>main\<close> ended: the gate was closed (\<open>Idle\<close>); the results were
  shown and the cleanup done (\<open>Rendered\<close>, with the slide texts, scripts and audio paths);
  an exception was caught and reported, and the cleanup done (\<open>Aborted\<close>); or the cleanup
  itself raised (\<open>Crashed\<close>).
\<close>

datatype outcome =
    Idle
  | Rendered "string list" "string list" "path list"
  | Aborted exn
  | Crashed exn

definition main :: "collaborators \<Rightarrow> inputs \<Rightarrow> world \<Rightarrow> outcome \<times> world" where
  "main e inp w =
     (let w0 = st_emit St_title (st_emit St_set_page_config w)
      in if process_button inp \<and> api_key inp \<noteq> [] \<and> uploaded_file inp \<noteq> None then
           (let script_generator = ClaudePPTScriptGenerator_init (api_key inp);
                (tmp_file_path, w1) =
                   NamedTemporaryFile_write e (the (uploaded_file inp)) w0;
                (loc, w2) = main_try e script_generator tmp_file_path
                              (voice_options (selected_voice inp)) w1;
                w3 = (case raised loc of
                        Some ex \<Rightarrow>
                          st_emit (St_error (''An error occurred: '' @ str_exn ex)) w2
                      | None \<Rightarrow> w2)
            in case main_finally tmp_file_path (audio_files loc) w3 of
                 (Inl ex, w4) \<Rightarrow> (Crashed ex, w4)
               | (Inr _, w4) \<Rightarrow>
                   (case raised loc of
                      Some ex \<Rightarrow> (Aborted ex, w4)
                    | None \<Rightarrow>
                        (Rendered (slide_texts loc) (scripts loc) (the (audio_files loc)),
                         w4)))
         else (Idle, w0))"

subsection \<open>Views of a run used to state its properties\<close>

text \<open>
  The script that \<open>generate_slide_script\<close> returns for a slide text when \<open>k\<close> requests
  were sent before, and the scripts of a list of slide texts requested one after the
  other. Lemmas \<open>generate_slide_script_fst\<close> and \<open>scripting_loop_fst\<close> tie them to the
  functions of the program.
\<close>

definition script_of ::
  "collaborators \<Rightarrow> ClaudePPTScriptGenerator \<Rightarrow> nat \<Rightarrow> string \<Rightarrow> string" where
  "script_of e self k slide_text =
     (case first_block_text (messages_create e k (client self) (script_request self slide_text)) of
        Inr t \<Rightarrow> t
      | Inl ex \<Rightarrow> ''Slide content: '' @ slide_text)"

fun scripts_from ::
  "collaborators \<Rightarrow> ClaudePPTScriptGenerator \<Rightarrow> nat \<Rightarrow> string list \<Rightarrow> string list" where
  "scripts_from e self k [] = []"
| "scripts_from e self k (t # ts) = script_of e self k t # scripts_from e self (Suc k) ts"

text \<open>
  The paths of \<open>n\<close> audio files whose indices start at \<open>i\<close>, named with the identifiers
  drawn from the \<open>d\<close>-th on.
\<close>

definition audio_paths :: "collaborators \<Rightarrow> nat \<Rightarrow> nat \<Rightarrow> nat \<Rightarrow> path list" where
  "audio_paths e i d n =
     map (\<lambda>j. os_path_join (gettempdir e) (audio_filename (i + j) (uuid4 e (d + j)))) [0..<n]"

text \<open>
  The number of scripts at the head of the list that the synthesis service answers,
  when \<open>k\<close> synthesis calls were made before.
\<close>

fun ok_prefix :: "collaborators \<Rightarrow> string \<Rightarrow> nat \<Rightarrow> string list \<Rightarrow> nat" where
  "ok_prefix e voice k [] = 0"
| "ok_prefix e voice k (s # ss) =
     (case gTTS_result e k s voice of
        Inl _ \<Rightarrow> 0
      | Inr _ \<Rightarrow> Suc (ok_prefix e voice (Suc k) ss))"

text \<open>
  The number of audio files that the loop of \<open>generate_audio\<close> writes: one per script
  answered, and one more when the first failure left a file behind.
\<close>

fun files_written :: "collaborators \<Rightarrow> string \<Rightarrow> nat \<Rightarrow> string list \<Rightarrow> nat" where
  "files_written e voice k [] = 0"
| "files_written e voice k (s # ss) =
     (case gTTS_result e k s voice of
        Inl (_, left) \<Rightarrow> (if left = None then 0 else 1)
      | Inr _ \<Rightarrow> Suc (files_written e voice (Suc k) ss))"

text \<open>The events of the results display.\<close>

fun shown :: "ui_event \<Rightarrow> bool" where
  "shown St_header = True"
| "shown (St_subheader _) = True"
| "shown (St_write _) = True"
| "shown (St_audio _) = True"
| "shown _ = False"

text \<open>
  The path of the copy of the uploaded document, the scripts that a run generates from a
  presentation, and the world in which \<open>main\<close> calls \<open>generate_audio\<close> (the input copy
  written, the scripting loop done). Lemma \<open>main_scripting\<close> ties the last two to the
  scripting loop as \<open>main\<close> runs it. \<open>display_events\<close> are the events of the display loop.
\<close>

definition tmp_path :: "collaborators \<Rightarrow> world \<Rightarrow> path" where
  "tmp_path e w = os_path_join (gettempdir e) (''tmp'' @ random_name e (draws w) @ ''.pptx'')"

definition world_at_synthesis ::
  "collaborators \<Rightarrow> inputs \<Rightarrow> (unit, unit) presentation \<Rightarrow> world \<Rightarrow> world" where
  "world_at_synthesis e inp pres w =
     snd (scripting_loop e (ClaudePPTScriptGenerator_init (api_key inp)) 0
            (length (extract_slide_text pres)) (extract_slide_text pres) []
            (st_emit (St_progress 0 1)
               (snd (NamedTemporaryFile_write e (the (uploaded_file inp))
                       (st_emit St_title (st_emit St_set_page_config w))))))"

definition run_scripts ::
  "collaborators \<Rightarrow> inputs \<Rightarrow> (unit, unit) presentation \<Rightarrow> world \<Rightarrow> string list" where
  "run_scripts e inp pres w =
     scripts_from e (ClaudePPTScriptGenerator_init (api_key inp)) (length (llm_log w))
       (extract_slide_text pres)"

definition display_events :: "nat \<Rightarrow> string list \<Rightarrow> path list \<Rightarrow> ui_event list" where
  "display_events i ss files =
     concat (map (\<lambda>j. [St_subheader (''Slide '' @ str_nat (i + j)), St_write (ss ! j),
                         St_audio (files ! (i - 1 + j))]) [0..<length ss])"

subsection \<open>Concrete runs\<close>

definition world0 :: world where
  "world0 = \<lparr>fs = Map.empty, created = [], llm_log = [], tts_log = [], ui = [], draws = 0\<rparr>"

definition deck2 :: "(unit, unit) presentation" where
  "deck2 =
     \<lparr>slides =
        [\<lparr>shapes = [\<lparr>shape_text = Some ''Intro''\<rparr>, \<lparr>shape_text = None\<rparr>,
                    \<lparr>shape_text = Some ''''\<rparr>]\<rparr>,
         \<lparr>shapes = []\<rparr>]\<rparr>"

definition deck0 :: "(unit, unit) presentation" where
  "deck0 = \<lparr>slides = []\<rparr>"

text \<open>
  A stack in which everything works; one in which the language model always fails (its
  first call raises, the later ones answer without content); one in which the request
  of the second synthesis fails.
\<close>

definition env_ok :: collaborators where
  "env_ok =
     \<lparr>messages_create = (\<lambda>k key req. Inr [TextBlock ''Welcome.'']),
      gTTS_result = (\<lambda>k script lang. Inr ''mp3''),
      uuid4 = (\<lambda>k. ''u'' @ str_nat k),
      gettempdir = ''/tmp'',
      random_name = (\<lambda>k. ''r'' @ str_nat k),
      load_pptx = (\<lambda>data. Inr deck2)\<rparr>"

definition env_llm_down :: collaborators where
  "env_llm_down =
     env_ok\<lparr>messages_create :=
       (\<lambda>k key req. if k = 0 then Inl (Exception ''401'') else Inr [])\<rparr>"

definition env_tts_fails_second :: collaborators where
  "env_tts_fails_second =
     env_ok\<lparr>gTTS_result :=
       (\<lambda>k script lang. if k = 0 then Inr ''mp3'' else Inl (Exception ''429'', Some []))\<rparr>"

definition env_empty_deck :: collaborators where
  "env_empty_deck = env_ok\<lparr>load_pptx := (\<lambda>data. Inr deck0)\<rparr>"

definition inputs_ok :: inputs where
  "inputs_ok =
     \<lparr>api_key = ''sk'', uploaded_file = Some ''PK'', selected_voice = English_US,
      process_button = True\<rparr>"

section \<open>Properties\<close>

subsection \<open>The extractor as a map over the slides\<close>

lemma collect_shape_texts_eq:
  "collect_shape_texts shs acc = acc @ text_bearing shs"
  by (induction shs arbitrary: acc) (auto simp: text_bearing_def split: option.splits)

lemma extract_slides_eq:
  "extract_slides sls acc = acc @ map (\<lambda>sl. str_join '' '' (text_bearing (shapes sl))) sls"
  by (induction sls arbitrary: acc) (simp_all add: collect_shape_texts_eq)

lemma extract_slide_text_map:
  "extract_slide_text p = map (\<lambda>sl. str_join '' '' (text_bearing (shapes sl))) (slides p)"
  by (simp add: extract_slide_text_def extract_slides_eq)

subsection \<open>Decimal numerals, file names and paths\<close>

lemma digit_char_code: "d < 10 \<Longrightarrow> (of_char (digit_char d) :: nat) = 48 + d"
proof -
  assume "d < 10"
  then have "d \<in> {0,1,2,3,4,5,6,7,8,9}" by auto
  then show ?thesis by (auto simp: digit_char_def)
qed

lemma digit_char_inj: "d < 10 \<Longrightarrow> d' < 10 \<Longrightarrow> digit_char d = digit_char d' \<Longrightarrow> d = d'"
  using digit_char_code by (metis add_left_cancel)

lemma digit_char_not_underscore: "d < 10 \<Longrightarrow> digit_char d \<noteq> CHR ''_''"
proof
  assume "d < 10" "digit_char d = CHR ''_''"
  then have "(of_char (CHR ''_'') :: nat) = 48 + d" using digit_char_code by metis
  with \<open>d < 10\<close> show False by simp
qed

lemma str_nat_nonempty: "str_nat n \<noteq> []"
  by (subst str_nat.simps) simp

lemma str_nat_no_underscore: "CHR ''_'' \<notin> set (str_nat n)"
proof (induction n rule: str_nat.induct)
  case (1 n)
  show ?case
  proof (cases "n < 10")
    case True
    then show ?thesis using digit_char_not_underscore[of n]
      by (subst str_nat.simps) auto
  next
    case False
    have "n mod 10 < 10" by simp
    then have "digit_char (n mod 10) \<noteq> CHR ''_''" by (rule digit_char_not_underscore)
    with False 1 show ?thesis
      by (subst str_nat.simps) auto
  qed
qed

lemma str_nat_inj: "str_nat m = str_nat n \<Longrightarrow> m = n"
proof (induction m arbitrary: n rule: str_nat.induct)
  case (1 m)
  show ?case
  proof (cases "m < 10")
    case m: True
    show ?thesis
    proof (cases "n < 10")
      case True
      with m "1.prems" show ?thesis
        by (simp add: str_nat.simps[of m] str_nat.simps[of n] digit_char_inj)
    next
      case False
      with m "1.prems" str_nat_nonempty[of "n div 10"] show ?thesis
        by (simp add: str_nat.simps[of m] str_nat.simps[of n])
    qed
  next
    case m: False
    show ?thesis
    proof (cases "n < 10")
      case True
      with m "1.prems" str_nat_nonempty[of "m div 10"] show ?thesis
        by (simp add: str_nat.simps[of m] str_nat.simps[of n])
    next
      case False
      with m "1.prems" have eq: "str_nat (m div 10) = str_nat (n div 10)"
        and d: "digit_char (m mod 10) = digit_char (n mod 10)"
        by (simp_all add: str_nat.simps[of m] str_nat.simps[of n])
      from "1.IH"[OF m eq] have "m div 10 = n div 10" .
      moreover from d have "m mod 10 = n mod 10"
        by (intro digit_char_inj) simp_all
      ultimately show ?thesis by (metis div_mult_mod_eq)
    qed
  qed
qed

lemma sep_split_unique:
  assumes "xs @ c # ys = xs' @ c # ys'" "c \<notin> set xs" "c \<notin> set xs'"
  shows "xs = xs' \<and> ys = ys'"
  using assms
proof (induction xs arbitrary: xs')
  case Nil
  then show ?case by (cases xs') auto
next
  case (Cons a xs)
  then show ?case by (cases xs') auto
qed

lemma audio_filename_inj:
  assumes "audio_filename i u = audio_filename j u'"
  shows "i = j \<and> u = u'"
proof -
  from assms have "str_nat i @ CHR ''_'' # (u @ ''.mp3'') = str_nat j @ CHR ''_'' # (u' @ ''.mp3'')"
    by (simp add: audio_filename_def)
  then have "str_nat i = str_nat j \<and> u @ ''.mp3'' = u' @ ''.mp3''"
    by (rule sep_split_unique) (rule str_nat_no_underscore)+
  then show ?thesis using str_nat_inj by auto
qed

lemma audio_filename_hd: "audio_filename i u \<noteq> [] \<and> hd (audio_filename i u) = CHR ''s''"
  by (simp add: audio_filename_def)

lemma os_path_join_inj:
  "os_path_join a b = os_path_join a b' \<Longrightarrow> hd b \<noteq> CHR ''/'' \<Longrightarrow> hd b' \<noteq> CHR ''/'' \<Longrightarrow>
   b = b'"
  by (simp add: os_path_join_def split: if_splits)

lemma audio_path_inj:
  assumes "os_path_join d (audio_filename i u) = os_path_join d (audio_filename j u')"
  shows "i = j \<and> u = u'"
proof -
  have "audio_filename i u = audio_filename j u'"
    using assms by (rule os_path_join_inj) (simp_all add: audio_filename_hd)
  then show ?thesis by (rule audio_filename_inj)
qed

lemma tmp_path_not_audio:
  "os_path_join d (''tmp'' @ r @ ''.pptx'') \<noteq> os_path_join d (audio_filename i u)"
proof
  assume "os_path_join d (''tmp'' @ r @ ''.pptx'') = os_path_join d (audio_filename i u)"
  then have "''tmp'' @ r @ ''.pptx'' = audio_filename i u"
    by (rule os_path_join_inj) (simp_all add: audio_filename_hd)
  then show False by (simp add: audio_filename_def)
qed

lemma length_audio_paths [simp]: "length (audio_paths e i d n) = n"
  by (simp add: audio_paths_def)

lemma distinct_audio_paths: "distinct (audio_paths e i d n)"
proof -
  have "inj_on (\<lambda>j. os_path_join (gettempdir e) (audio_filename (i + j) (uuid4 e (d + j)))) (set [0..<n])"
  proof (rule inj_onI)
    fix x y
    assume "os_path_join (gettempdir e) (audio_filename (i + x) (uuid4 e (d + x))) =
            os_path_join (gettempdir e) (audio_filename (i + y) (uuid4 e (d + y)))"
    then have "i + x = i + y" using audio_path_inj by blast
    then show "x = y" by simp
  qed
  then show ?thesis unfolding audio_paths_def by (simp only: distinct_map distinct_upt simp_thms)
qed

lemma audio_paths_Suc:
  "audio_paths e i d (Suc n) =
     os_path_join (gettempdir e) (audio_filename i (uuid4 e d)) # audio_paths e (Suc i) (Suc d) n"
  unfolding audio_paths_def by (subst map_upt_Suc) simp

lemma tmp_path_notin_audio_paths:
  "os_path_join (gettempdir e) (''tmp'' @ r @ ''.pptx'') \<notin> set (audio_paths e i d n)"
  unfolding audio_paths_def set_map using tmp_path_not_audio by blast

subsection \<open>The script generator and the scripting loop\<close>

lemma generate_slide_script_fst:
  "fst (generate_slide_script e g t w) = script_of e g (length (llm_log w)) t"
  by (simp add: generate_slide_script_def script_of_def Let_def split: sum.splits)

lemma generate_slide_script_llm_log:
  "llm_log (snd (generate_slide_script e g t w)) = llm_log w @ [script_request g t]"
  by (simp add: generate_slide_script_def st_emit_def Let_def split: sum.splits)

lemma generate_slide_script_frame:
  "fs (snd (generate_slide_script e g t w)) = fs w"
  "created (snd (generate_slide_script e g t w)) = created w"
  "tts_log (snd (generate_slide_script e g t w)) = tts_log w"
  "draws (snd (generate_slide_script e g t w)) = draws w"
  by (simp_all add: generate_slide_script_def st_emit_def Let_def split: sum.splits)

lemma generate_slide_script_shown:
  "filter shown (ui (snd (generate_slide_script e g t w))) = filter shown (ui w)"
  by (simp add: generate_slide_script_def st_emit_def Let_def split: sum.splits)

lemma scripting_loop_fst:
  "fst (scripting_loop e g i n texts acc w) = acc @ scripts_from e g (length (llm_log w)) texts"
  by (induction texts arbitrary: i acc w)
     (simp_all add: split_beta st_emit_def generate_slide_script_fst generate_slide_script_llm_log)

lemma scripting_loop_llm_log:
  "llm_log (snd (scripting_loop e g i n texts acc w)) = llm_log w @ map (script_request g) texts"
  by (induction texts arbitrary: i acc w)
     (simp_all add: split_beta st_emit_def generate_slide_script_llm_log)

lemma scripting_loop_frame:
  "fs (snd (scripting_loop e g i n texts acc w)) = fs w"
  "created (snd (scripting_loop e g i n texts acc w)) = created w"
  "tts_log (snd (scripting_loop e g i n texts acc w)) = tts_log w"
  "draws (snd (scripting_loop e g i n texts acc w)) = draws w"
  by (induction texts arbitrary: i acc w)
     (simp_all add: split_beta st_emit_def generate_slide_script_frame)

lemma scripting_loop_shown:
  "filter shown (ui (snd (scripting_loop e g i n texts acc w))) = filter shown (ui w)"
  by (induction texts arbitrary: i acc w)
     (simp_all add: split_beta st_emit_def generate_slide_script_shown)

lemma length_scripts_from [simp]: "length (scripts_from e g k texts) = length texts"
  by (induction texts arbitrary: k) simp_all

lemma nth_scripts_from:
  "j < length texts \<Longrightarrow> scripts_from e g k texts ! j = script_of e g (k + j) (texts ! j)"
proof (induction texts arbitrary: k j)
  case Nil
  then show ?case by simp
next
  case (Cons t ts)
  then show ?case by (cases j) simp_all
qed

subsection \<open>The synthesis loop\<close>

lemma gTTS_save_Inl:
  "gTTS_result e (length (tts_log w)) s v = Inl (ex, left) \<Longrightarrow>
   gTTS_save e s v p w =
     (Inl ex,
      case left of
        None \<Rightarrow> w\<lparr>tts_log := tts_log w @ [(s, v, p)]\<rparr>
      | Some part \<Rightarrow>
          w\<lparr>tts_log := tts_log w @ [(s, v, p)], fs := (fs w)(p \<mapsto> part),
            created := created w @ [p]\<rparr>)"
  by (simp add: gTTS_save_def split: option.splits)

lemma gTTS_save_Inr:
  "gTTS_result e (length (tts_log w)) s v = Inr a \<Longrightarrow>
   gTTS_save e s v p w =
     (Inr (), w\<lparr>tts_log := tts_log w @ [(s, v, p)], fs := (fs w)(p \<mapsto> a),
                 created := created w @ [p]\<rparr>)"
  by (simp add: gTTS_save_def)

text \<open>One step of the loop, by the outcome of its synthesis.\<close>

lemma generate_audio_loop_Inl:
  "gTTS_result e (length (tts_log w)) s v = Inl (ex, left) \<Longrightarrow>
   generate_audio_loop e v i (s # ss) acc w =
     (Inl ex,
      case left of
        None \<Rightarrow>
          w\<lparr>draws := Suc (draws w),
            tts_log := tts_log w @
              [(s, v, os_path_join (gettempdir e) (audio_filename i (uuid4 e (draws w))))]\<rparr>
      | Some part \<Rightarrow>
          w\<lparr>draws := Suc (draws w),
            tts_log := tts_log w @
              [(s, v, os_path_join (gettempdir e) (audio_filename i (uuid4 e (draws w))))],
            fs := (fs w)(os_path_join (gettempdir e) (audio_filename i (uuid4 e (draws w)))
                          \<mapsto> part),
            created := created w @
              [os_path_join (gettempdir e) (audio_filename i (uuid4 e (draws w)))]\<rparr>)"
  by (simp add: Let_def gTTS_save_Inl split: option.splits)

lemma generate_audio_loop_Inr:
  "gTTS_result e (length (tts_log w)) s v = Inr a \<Longrightarrow>
   generate_audio_loop e v i (s # ss) acc w =
     generate_audio_loop e v (Suc i) ss
       (acc @ [os_path_join (gettempdir e) (audio_filename i (uuid4 e (draws w)))])
       (w\<lparr>draws := Suc (draws w),
          tts_log := tts_log w @
            [(s, v, os_path_join (gettempdir e) (audio_filename i (uuid4 e (draws w))))],
          fs := (fs w)(os_path_join (gettempdir e) (audio_filename i (uuid4 e (draws w)))
                        \<mapsto> a),
          created := created w @
            [os_path_join (gettempdir e) (audio_filename i (uuid4 e (draws w)))]\<rparr>)"
  by (simp add: Let_def gTTS_save_Inr)

lemma generate_audio_loop_frame:
  "llm_log (snd (generate_audio_loop e v i ss acc w)) = llm_log w"
  "ui (snd (generate_audio_loop e v i ss acc w)) = ui w"
proof (induction ss arbitrary: i acc w)
  case Nil
  { case 1 show ?case by simp }
  { case 2 show ?case by simp }
next
  case (Cons s ss)
  { case 1 show ?case
    proof (cases "gTTS_result e (length (tts_log w)) s v")
      case (Inl f)
      obtain ex left where "f = (ex, left)" by (cases f)
      with Inl show ?thesis
        by (simp add: generate_audio_loop_Inl del: generate_audio_loop.simps split: option.splits)
    next
      case (Inr a)
      then show ?thesis by (simp add: generate_audio_loop_Inr Cons.IH del: generate_audio_loop.simps)
    qed }
  { case 2 show ?case
    proof (cases "gTTS_result e (length (tts_log w)) s v")
      case (Inl f)
      obtain ex left where "f = (ex, left)" by (cases f)
      with Inl show ?thesis
        by (simp add: generate_audio_loop_Inl del: generate_audio_loop.simps split: option.splits)
    next
      case (Inr a)
      then show ?thesis by (simp add: generate_audio_loop_Inr Cons.IH del: generate_audio_loop.simps)
    qed }
qed

lemma generate_audio_loop_created:
  "created (snd (generate_audio_loop e v i ss acc w)) =
     created w @ take (files_written e v (length (tts_log w)) ss)
                      (audio_paths e i (draws w) (length ss))"
proof (induction ss arbitrary: i acc w)
  case Nil
  show ?case by simp
next
  case (Cons s ss)
  show ?case
  proof (cases "gTTS_result e (length (tts_log w)) s v")
    case (Inl f)
    obtain ex left where "f = (ex, left)" by (cases f)
    with Inl show ?thesis
      by (simp add: generate_audio_loop_Inl audio_paths_Suc del: generate_audio_loop.simps split: option.splits)
  next
    case (Inr a)
    then show ?thesis
      by (simp add: generate_audio_loop_Inr Cons.IH audio_paths_Suc del: generate_audio_loop.simps)
  qed
qed

lemma generate_audio_loop_fs_keeps:
  "fs w p \<noteq> None \<Longrightarrow> fs (snd (generate_audio_loop e v i ss acc w)) p \<noteq> None"
proof (induction ss arbitrary: i acc w)
  case Nil
  then show ?case by simp
next
  case (Cons s ss)
  show ?case
  proof (cases "gTTS_result e (length (tts_log w)) s v")
    case (Inl f)
    obtain ex left where "f = (ex, left)" by (cases f)
    with Inl Cons.prems show ?thesis
      by (simp add: generate_audio_loop_Inl del: generate_audio_loop.simps split: option.splits)
  next
    case (Inr a)
    with Cons show ?thesis
      by (simp add: generate_audio_loop_Inr del: generate_audio_loop.simps)
  qed
qed

lemma generate_audio_loop_fs_written:
  "p \<in> set (take (ok_prefix e v (length (tts_log w)) ss) (audio_paths e i (draws w) (length ss)))
   \<Longrightarrow> fs (snd (generate_audio_loop e v i ss acc w)) p \<noteq> None"
proof (induction ss arbitrary: i acc w)
  case Nil
  then show ?case by simp
next
  case (Cons s ss)
  show ?case
  proof (cases "gTTS_result e (length (tts_log w)) s v")
    case (Inl f)
    with Cons.prems show ?thesis by simp
  next
    case (Inr a)
    let ?p0 = "os_path_join (gettempdir e) (audio_filename i (uuid4 e (draws w)))"
    let ?w2 = "w\<lparr>draws := Suc (draws w), tts_log := tts_log w @ [(s, v, ?p0)],
                  fs := (fs w)(?p0 \<mapsto> a), created := created w @ [?p0]\<rparr>"
    have step: "generate_audio_loop e v i (s # ss) acc w =
                generate_audio_loop e v (Suc i) ss (acc @ [?p0]) ?w2"
      using Inr by (rule generate_audio_loop_Inr)
    from Cons.prems Inr have
      "p = ?p0 \<or> p \<in> set (take (ok_prefix e v (length (tts_log ?w2)) ss)
                               (audio_paths e (Suc i) (draws ?w2) (length ss)))"
      by (simp add: audio_paths_Suc)
    then show ?thesis
    proof
      assume "p = ?p0"
      then have "fs ?w2 p \<noteq> None" by simp
      then show ?thesis unfolding step by (rule generate_audio_loop_fs_keeps)
    next
      assume "p \<in> set (take (ok_prefix e v (length (tts_log ?w2)) ss)
                               (audio_paths e (Suc i) (draws ?w2) (length ss)))"
      then show ?thesis unfolding step by (rule Cons.IH)
    qed
  qed
qed

lemma generate_audio_loop_fst_ok:
  "ok_prefix e v (length (tts_log w)) ss = length ss \<Longrightarrow>
   fst (generate_audio_loop e v i ss acc w) = Inr (acc @ audio_paths e i (draws w) (length ss))"
proof (induction ss arbitrary: i acc w)
  case Nil
  show ?case by (simp add: audio_paths_def)
next
  case (Cons s ss)
  show ?case
  proof (cases "gTTS_result e (length (tts_log w)) s v")
    case (Inl f)
    with Cons.prems show ?thesis by simp
  next
    case (Inr a)
    with Cons show ?thesis
      by (simp add: generate_audio_loop_Inr audio_paths_Suc del: generate_audio_loop.simps)
  qed
qed

lemma generate_audio_loop_fst_fail:
  "ok_prefix e v (length (tts_log w)) ss < length ss \<Longrightarrow>
   \<exists>ex left. gTTS_result e (length (tts_log w) + ok_prefix e v (length (tts_log w)) ss)
            (ss ! ok_prefix e v (length (tts_log w)) ss) v = Inl (ex, left) \<and>
        fst (generate_audio_loop e v i ss acc w) = Inl ex"
proof (induction ss arbitrary: i acc w)
  case Nil
  then show ?case by simp
next
  case (Cons s ss)
  show ?case
  proof (cases "gTTS_result e (length (tts_log w)) s v")
    case (Inl f)
    obtain ex left where "f = (ex, left)" by (cases f)
    with Inl show ?thesis by (simp add: generate_audio_loop_Inl del: generate_audio_loop.simps)
  next
    case (Inr a)
    let ?p0 = "os_path_join (gettempdir e) (audio_filename i (uuid4 e (draws w)))"
    let ?w2 = "w\<lparr>draws := Suc (draws w), tts_log := tts_log w @ [(s, v, ?p0)],
                  fs := (fs w)(?p0 \<mapsto> a), created := created w @ [?p0]\<rparr>"
    have step: "generate_audio_loop e v i (s # ss) acc w =
                generate_audio_loop e v (Suc i) ss (acc @ [?p0]) ?w2"
      using Inr by (rule generate_audio_loop_Inr)
    have len: "length (tts_log ?w2) = Suc (length (tts_log w))" by simp
    from Cons.prems Inr have "ok_prefix e v (length (tts_log ?w2)) ss < length ss"
      by simp
    from Cons.IH [OF this, of "Suc i" "acc @ [?p0]"] obtain ex left where
      ex: "gTTS_result e (length (tts_log ?w2) + ok_prefix e v (length (tts_log ?w2)) ss)
             (ss ! ok_prefix e v (length (tts_log ?w2)) ss) v = Inl (ex, left)"
      and r: "fst (generate_audio_loop e v (Suc i) ss (acc @ [?p0]) ?w2) = Inl ex"
      by blast
    have pre: "ok_prefix e v (length (tts_log w)) (s # ss) =
               Suc (ok_prefix e v (Suc (length (tts_log w))) ss)"
      using Inr by simp
    show ?thesis
      unfolding step pre using ex r unfolding len by auto
  qed
qed

lemma generate_audio_loop_tts_log_ok:
  "ok_prefix e v (length (tts_log w)) ss = length ss \<Longrightarrow>
   tts_log (snd (generate_audio_loop e v i ss acc w)) =
     tts_log w @ map (\<lambda>(s, p). (s, v, p)) (zip ss (audio_paths e i (draws w) (length ss)))"
proof (induction ss arbitrary: i acc w)
  case Nil
  show ?case by simp
next
  case (Cons s ss)
  show ?case
  proof (cases "gTTS_result e (length (tts_log w)) s v")
    case (Inl f)
    with Cons.prems show ?thesis by simp
  next
    case (Inr a)
    with Cons show ?thesis
      by (simp add: generate_audio_loop_Inr audio_paths_Suc del: generate_audio_loop.simps)
  qed
qed

lemma generate_audio_loop_tts_len:
  "length (tts_log (snd (generate_audio_loop e v i ss acc w))) =
     length (tts_log w) + min (Suc (ok_prefix e v (length (tts_log w)) ss)) (length ss)"
proof (induction ss arbitrary: i acc w)
  case Nil
  show ?case by simp
next
  case (Cons s ss)
  show ?case
  proof (cases "gTTS_result e (length (tts_log w)) s v")
    case (Inl f)
    obtain ex left where "f = (ex, left)" by (cases f)
    with Inl show ?thesis
      by (simp add: generate_audio_loop_Inl del: generate_audio_loop.simps split: option.splits)
  next
    case (Inr a)
    then show ?thesis by (simp add: generate_audio_loop_Inr Cons.IH del: generate_audio_loop.simps)
  qed
qed

text \<open>The first failure, stated on the list.\<close>

lemma ok_prefix_le: "ok_prefix e v k ss \<le> length ss"
  by (induction ss arbitrary: k) (simp_all split: sum.splits)

lemma ok_prefix_all:
  "(\<forall>j < length ss. \<exists>a. gTTS_result e (k + j) (ss ! j) v = Inr a) \<Longrightarrow>
   ok_prefix e v k ss = length ss"
proof (induction ss arbitrary: k)
  case Nil
  show ?case by simp
next
  case (Cons s ss)
  from Cons.prems have "\<exists>a. gTTS_result e (k + 0) ((s # ss) ! 0) v = Inr a" by blast
  then obtain a where a: "gTTS_result e k s v = Inr a" by auto
  have "\<forall>j < length ss. \<exists>a. gTTS_result e (Suc k + j) (ss ! j) v = Inr a"
  proof (intro allI impI)
    fix j assume "j < length ss"
    then have "Suc j < length (s # ss)" by simp
    with Cons.prems have "\<exists>a. gTTS_result e (k + Suc j) ((s # ss) ! Suc j) v = Inr a" by blast
    then show "\<exists>a. gTTS_result e (Suc k + j) (ss ! j) v = Inr a" by simp
  qed
  then have "ok_prefix e v (Suc k) ss = length ss" by (rule Cons.IH)
  with a show ?case by simp
qed

lemma ok_prefix_first_failure:
  "m < length ss \<Longrightarrow> gTTS_result e (k + m) (ss ! m) v = Inl (ex, left) \<Longrightarrow>
   (\<forall>j < m. \<exists>a. gTTS_result e (k + j) (ss ! j) v = Inr a) \<Longrightarrow>
   ok_prefix e v k ss = m \<and>
   files_written e v k ss = (if left = None then m else Suc m)"
proof (induction ss arbitrary: k m)
  case Nil
  then show ?case by simp
next
  case (Cons s ss)
  show ?case
  proof (cases m)
    case 0
    with Cons.prems show ?thesis by simp
  next
    case (Suc m')
    with Cons.prems have "\<exists>a. gTTS_result e (k + 0) ((s # ss) ! 0) v = Inr a" by blast
    then obtain a where a: "gTTS_result e k s v = Inr a" by auto
    have "ok_prefix e v (Suc k) ss = m' \<and>
          files_written e v (Suc k) ss = (if left = None then m' else Suc m')"
    proof (rule Cons.IH)
      show "m' < length ss" using Cons.prems Suc by simp
      show "gTTS_result e (Suc k + m') (ss ! m') v = Inl (ex, left)"
        using Cons.prems Suc by simp
      show "\<forall>j<m'. \<exists>a. gTTS_result e (Suc k + j) (ss ! j) v = Inr a"
      proof (intro allI impI)
        fix j assume "j < m'"
        then have "Suc j < m" using Suc by simp
        with Cons.prems have "\<exists>a. gTTS_result e (k + Suc j) ((s # ss) ! Suc j) v = Inr a" by blast
        then show "\<exists>a. gTTS_result e (Suc k + j) (ss ! j) v = Inr a" by simp
      qed
    qed
    with a Suc show ?thesis by simp
  qed
qed

lemma files_written_ok:
  "ok_prefix e v k ss = length ss \<Longrightarrow> files_written e v k ss = length ss"
proof (induction ss arbitrary: k)
  case Nil
  show ?case by simp
next
  case (Cons s ss)
  then show ?case
    by (cases "gTTS_result e k s v") simp_all
qed

subsection \<open>Display and cleanup\<close>

lemma display_events_Cons:
  "display_events i (s # ss) files =
     [St_subheader (''Slide '' @ str_nat i), St_write s, St_audio (files ! (i - 1))]
     @ display_events (Suc i) ss files"
  if "0 < i"
proof -
  have "i - 1 + Suc j = Suc i - 1 + j" for j using that by simp
  then show ?thesis
    using that unfolding display_events_def length_Cons
    by (subst map_upt_Suc) (simp del: upt_Suc append.simps)
qed

lemma display_loop_ok:
  "0 < i \<Longrightarrow> i - 1 + length ss \<le> length files \<Longrightarrow>
   display_loop i ss files w = (Inr (), w\<lparr>ui := ui w @ display_events i ss files\<rparr>)"
proof (induction ss arbitrary: i w)
  case Nil
  show ?case by (simp add: display_events_def)
next
  case (Cons s ss)
  from Cons.prems have lt: "i - 1 < length files" by simp
  have "display_loop (Suc i) ss files
          (st_emit (St_audio (files ! (i - 1)))
             (st_emit (St_write s) (st_emit (St_subheader (''Slide '' @ str_nat i)) w))) =
        (Inr (), (st_emit (St_audio (files ! (i - 1)))
             (st_emit (St_write s) (st_emit (St_subheader (''Slide '' @ str_nat i)) w)))
           \<lparr>ui := ui (st_emit (St_audio (files ! (i - 1)))
             (st_emit (St_write s) (st_emit (St_subheader (''Slide '' @ str_nat i)) w)))
               @ display_events (Suc i) ss files\<rparr>)"
    by (rule Cons.IH) (use Cons.prems in simp_all)
  then show ?case
    using lt Cons.prems(1)
    by (simp add: Let_def st_emit_def display_events_Cons del: append.simps)
qed

lemma os_unlink_ok:
  "fs w p \<noteq> None \<Longrightarrow> os_unlink p w = (Inr (), w\<lparr>fs := (fs w)(p := None)\<rparr>)"
  by (auto simp: os_unlink_def)

lemma unlink_each_ok:
  "distinct ps \<Longrightarrow> \<forall>p \<in> set ps. fs w p \<noteq> None \<Longrightarrow>
   unlink_each ps w = (Inr (), w\<lparr>fs := (\<lambda>p. if p \<in> set ps then None else fs w p)\<rparr>)"
proof (induction ps arbitrary: w)
  case Nil
  show ?case by simp
next
  case (Cons p ps)
  let ?w1 = "w\<lparr>fs := (fs w)(p := None)\<rparr>"
  have u: "os_unlink p w = (Inr (), ?w1)"
    using Cons.prems by (simp add: os_unlink_ok)
  have "unlink_each ps ?w1 =
          (Inr (), ?w1\<lparr>fs := (\<lambda>q. if q \<in> set ps then None else fs ?w1 q)\<rparr>)"
    by (rule Cons.IH) (use Cons.prems in auto)
  moreover have "(\<lambda>q. if q \<in> set ps then None else fs ?w1 q) =
                 (\<lambda>q. if q \<in> set (p # ps) then None else fs w q)"
    by (auto simp: fun_eq_iff)
  ultimately show ?case using u by simp
qed

subsection \<open>The orchestrator, path by path\<close>

lemma tmp_path_st_emit [simp]: "tmp_path e (st_emit ev w) = tmp_path e w"
  by (simp add: tmp_path_def st_emit_def)

lemma tmp_path_ui [simp]: "tmp_path e (w\<lparr>ui := x\<rparr>) = tmp_path e w"
  by (simp add: tmp_path_def)

lemma NamedTemporaryFile_write_eq:
  "NamedTemporaryFile_write e data w =
     (tmp_path e w,
      w\<lparr>fs := (fs w)(tmp_path e w \<mapsto> data), created := created w @ [tmp_path e w],
        draws := Suc (draws w)\<rparr>)"
  by (simp add: NamedTemporaryFile_write_def tmp_path_def Let_def)

lemma world_at_synthesis_frame:
  "fs (world_at_synthesis e inp pres w) = (fs w)(tmp_path e w \<mapsto> the (uploaded_file inp))"
  "created (world_at_synthesis e inp pres w) = created w @ [tmp_path e w]"
  "tts_log (world_at_synthesis e inp pres w) = tts_log w"
  "draws (world_at_synthesis e inp pres w) = Suc (draws w)"
  "llm_log (world_at_synthesis e inp pres w) =
     llm_log w @ map (script_request (ClaudePPTScriptGenerator_init (api_key inp)))
                     (extract_slide_text pres)"
  "filter shown (ui (world_at_synthesis e inp pres w)) = filter shown (ui w)"
  by (simp_all add: world_at_synthesis_def scripting_loop_frame scripting_loop_llm_log
        scripting_loop_shown NamedTemporaryFile_write_eq)
     (simp_all add: st_emit_def)

lemma main_closed:
  "\<not> (process_button inp \<and> api_key inp \<noteq> [] \<and> uploaded_file inp \<noteq> None) \<Longrightarrow>
   main e inp w = (Idle, w\<lparr>ui := ui w @ [St_set_page_config, St_title]\<rparr>)"
  by (auto simp: main_def st_emit_def Let_def)

text \<open>The scripting stage as \<open>main\<close> runs it.\<close>

lemma main_scripting:
  assumes "uploaded_file inp = Some data"
  shows "scripting_loop e (ClaudePPTScriptGenerator_init (api_key inp)) 0
            (length (extract_slide_text pres)) (extract_slide_text pres) []
            (st_emit (St_progress 0 1)
               (snd (NamedTemporaryFile_write e data
                       (st_emit St_title (st_emit St_set_page_config w))))) =
         (run_scripts e inp pres w, world_at_synthesis e inp pres w)"
proof (rule prod_eqI)
  show "fst (scripting_loop e (ClaudePPTScriptGenerator_init (api_key inp)) 0
            (length (extract_slide_text pres)) (extract_slide_text pres) []
            (st_emit (St_progress 0 1)
               (snd (NamedTemporaryFile_write e data
                       (st_emit St_title (st_emit St_set_page_config w)))))) =
        fst (run_scripts e inp pres w, world_at_synthesis e inp pres w)"
    by (simp add: scripting_loop_fst run_scripts_def NamedTemporaryFile_write_eq)
       (simp add: st_emit_def)
  show "snd (scripting_loop e (ClaudePPTScriptGenerator_init (api_key inp)) 0
            (length (extract_slide_text pres)) (extract_slide_text pres) []
            (st_emit (St_progress 0 1)
               (snd (NamedTemporaryFile_write e data
                       (st_emit St_title (st_emit St_set_page_config w)))))) =
        snd (run_scripts e inp pres w, world_at_synthesis e inp pres w)"
    by (simp add: world_at_synthesis_def assms)
qed

lemma Presentation_tmp:
  "Presentation e (tmp_path e w)
     (snd (NamedTemporaryFile_write e data (st_emit St_title (st_emit St_set_page_config w))))
   = load_pptx e data"
  by (simp add: Presentation_def NamedTemporaryFile_write_eq)

lemma fs_tmp_written:
  "fs (snd (NamedTemporaryFile_write e data (st_emit St_title (st_emit St_set_page_config w))))
     (tmp_path e w) \<noteq> None"
  by (simp add: NamedTemporaryFile_write_eq)

lemma main_parse_fail_eq:
  assumes gate: "process_button inp" "api_key inp \<noteq> []" "uploaded_file inp = Some data"
    and load: "load_pptx e data = Inl ex"
  shows "main e inp w =
     (Aborted ex,
      w\<lparr>ui := ui w @ [St_set_page_config, St_title,
                        St_error (''An error occurred: '' @ str_exn ex)],
        created := created w @ [tmp_path e w], draws := Suc (draws w),
        fs := (fs w)(tmp_path e w := None)\<rparr>)"
proof -
  define w0 where "w0 = st_emit St_title (st_emit St_set_page_config w)"
  define w1 where "w1 = snd (NamedTemporaryFile_write e data w0)"
  define w2 where "w2 = st_emit (St_error (''An error occurred: '' @ str_exn ex)) w1"
  have N: "NamedTemporaryFile_write e data w0 = (tmp_path e w, w1)"
    by (simp add: w1_def w0_def NamedTemporaryFile_write_eq)
  have "Presentation e (tmp_path e w) w1 = Inl ex"
    unfolding w1_def w0_def by (simp only: Presentation_tmp load)
  then have T: "main_try e (ClaudePPTScriptGenerator_init (api_key inp)) (tmp_path e w)
                  (voice_options (selected_voice inp)) w1 =
        (\<lparr>raised = Some ex, slide_texts = [], scripts = [], audio_files = None\<rparr>, w1)"
    by (simp add: main_try_def)
  have "fs w1 (tmp_path e w) \<noteq> None"
    unfolding w1_def w0_def by (rule fs_tmp_written)
  then have "fs w2 (tmp_path e w) \<noteq> None"
    by (simp add: w2_def st_emit_def)
  then have F: "main_finally (tmp_path e w) None w2 =
                  (Inr (), w2\<lparr>fs := (fs w2)(tmp_path e w := None)\<rparr>)"
    by (simp add: main_finally_def os_unlink_ok)
  have "main e inp w = (Aborted ex, w2\<lparr>fs := (fs w2)(tmp_path e w := None)\<rparr>)"
    unfolding main_def Let_def w0_def [symmetric]
    by (simp only: gate option.distinct option.sel simp_thms if_True N T F prod.case
          main_locals.select_convs option.case sum.case fst_conv w2_def [symmetric])
  then show ?thesis
    by (simp add: w2_def w1_def w0_def NamedTemporaryFile_write_eq st_emit_def)
qed

text \<open>The run when the synthesis raises.\<close>

lemma main_abort:
  assumes gate: "process_button inp" "api_key inp \<noteq> []" "uploaded_file inp = Some data"
    and load: "load_pptx e data = Inr pres"
    and A: "generate_audio e (run_scripts e inp pres w) (voice_options (selected_voice inp))
              (world_at_synthesis e inp pres w) = (Inl ex, w3)"
  shows "main e inp w =
     (Aborted ex,
      w3\<lparr>ui := ui w3 @ [St_error (''An error occurred: '' @ str_exn ex)],
         fs := (fs w3)(tmp_path e w := None)\<rparr>)"
proof -
  define w0 where "w0 = st_emit St_title (st_emit St_set_page_config w)"
  define w1 where "w1 = snd (NamedTemporaryFile_write e data w0)"
  define w4 where "w4 = st_emit (St_error (''An error occurred: '' @ str_exn ex)) w3"
  have N: "NamedTemporaryFile_write e data w0 = (tmp_path e w, w1)"
    by (simp add: w1_def w0_def NamedTemporaryFile_write_eq)
  have P: "Presentation e (tmp_path e w) w1 = Inr pres"
    unfolding w1_def w0_def by (simp only: Presentation_tmp load)
  have L: "scripting_loop e (ClaudePPTScriptGenerator_init (api_key inp)) 0
            (length (extract_slide_text pres)) (extract_slide_text pres) []
            (st_emit (St_progress 0 1) w1) =
         (run_scripts e inp pres w, world_at_synthesis e inp pres w)"
    unfolding w1_def w0_def by (rule main_scripting [OF gate(3)])
  have T: "main_try e (ClaudePPTScriptGenerator_init (api_key inp)) (tmp_path e w)
             (voice_options (selected_voice inp)) w1 =
      (\<lparr>raised = Some ex, slide_texts = extract_slide_text pres,
        scripts = run_scripts e inp pres w, audio_files = None\<rparr>, w3)"
    unfolding main_try_def Let_def by (simp only: P L A sum.case prod.case)
  have "fs (world_at_synthesis e inp pres w) (tmp_path e w) \<noteq> None"
    by (simp add: world_at_synthesis_frame)
  then have "fs (snd (generate_audio_loop e (voice_options (selected_voice inp)) 1
              (run_scripts e inp pres w) [] (world_at_synthesis e inp pres w)))
              (tmp_path e w) \<noteq> None"
    by (rule generate_audio_loop_fs_keeps)
  then have "fs w3 (tmp_path e w) \<noteq> None"
    using A by (simp add: generate_audio_def)
  then have "fs w4 (tmp_path e w) \<noteq> None"
    by (simp add: w4_def st_emit_def)
  then have F: "main_finally (tmp_path e w) None w4 =
                  (Inr (), w4\<lparr>fs := (fs w4)(tmp_path e w := None)\<rparr>)"
    by (simp add: main_finally_def os_unlink_ok)
  have "main e inp w = (Aborted ex, w4\<lparr>fs := (fs w4)(tmp_path e w := None)\<rparr>)"
    unfolding main_def Let_def w0_def [symmetric]
    by (simp only: gate option.distinct option.sel simp_thms if_True N T F prod.case
          main_locals.select_convs option.case sum.case fst_conv w4_def [symmetric])
  then show ?thesis by (simp add: w4_def st_emit_def)
qed

text \<open>The run when the synthesis returns.\<close>

lemma generate_audio_returns:
  assumes A: "generate_audio e ss v w = (Inr files, w3)"
  shows "ok_prefix e v (length (tts_log w)) ss = length ss"
    and "files = audio_paths e 1 (draws w) (length ss)"
proof -
  show okp: "ok_prefix e v (length (tts_log w)) ss = length ss"
  proof (rule ccontr)
    assume "ok_prefix e v (length (tts_log w)) ss \<noteq> length ss"
    with ok_prefix_le [of e v "length (tts_log w)" ss]
    have "ok_prefix e v (length (tts_log w)) ss < length ss" by simp
    from generate_audio_loop_fst_fail [OF this, of 1 "[]"]
    obtain ex where "fst (generate_audio e ss v w) = Inl ex"
      unfolding generate_audio_def by blast
    with A show False by simp
  qed
  have "fst (generate_audio e ss v w) = Inr ([] @ audio_paths e 1 (draws w) (length ss))"
    unfolding generate_audio_def using okp by (rule generate_audio_loop_fst_ok)
  with A show "files = audio_paths e 1 (draws w) (length ss)" by simp
qed

lemma main_render:
  assumes gate: "process_button inp" "api_key inp \<noteq> []" "uploaded_file inp = Some data"
    and load: "load_pptx e data = Inr pres"
    and A: "generate_audio e (run_scripts e inp pres w) (voice_options (selected_voice inp))
              (world_at_synthesis e inp pres w) = (Inr files, w3)"
  shows "main e inp w =
     (Rendered (extract_slide_text pres) (run_scripts e inp pres w) files,
      w3\<lparr>ui := ui w3 @ St_header # display_events 1 (run_scripts e inp pres w) files,
         fs := (\<lambda>p. if p = tmp_path e w \<or> p \<in> set files then None else fs w3 p)\<rparr>)"
proof -
  let ?g = "ClaudePPTScriptGenerator_init (api_key inp)"
  let ?v = "voice_options (selected_voice inp)"
  let ?texts = "extract_slide_text pres"
  let ?scrs = "run_scripts e inp pres w"
  let ?ws = "world_at_synthesis e inp pres w"
  define w0 where "w0 = st_emit St_title (st_emit St_set_page_config w)"
  define w1 where "w1 = snd (NamedTemporaryFile_write e data w0)"
  define w4 where "w4 = w3\<lparr>ui := ui w3 @ St_header # display_events 1 ?scrs files\<rparr>"
  have N: "NamedTemporaryFile_write e data w0 = (tmp_path e w, w1)"
    by (simp add: w1_def w0_def NamedTemporaryFile_write_eq)
  have P: "Presentation e (tmp_path e w) w1 = Inr pres"
    unfolding w1_def w0_def by (simp only: Presentation_tmp load)
  have L: "scripting_loop e ?g 0 (length ?texts) ?texts [] (st_emit (St_progress 0 1) w1) =
         (?scrs, ?ws)"
    unfolding w1_def w0_def by (rule main_scripting [OF gate(3)])
  have len: "length ?scrs = length ?texts"
    by (simp add: run_scripts_def)
  note okp = generate_audio_returns(1) [OF A]
  have files: "files = audio_paths e 1 (draws ?ws) (length ?scrs)"
    by (rule generate_audio_returns(2) [OF A])
  have w3: "w3 = snd (generate_audio_loop e ?v 1 ?scrs [] ?ws)"
    using A by (simp add: generate_audio_def)
  have lenf: "length files = length ?scrs"
    by (simp add: files)
  have "display_loop 1 ?scrs files (st_emit St_header w3) =
      (Inr (), (st_emit St_header w3)
         \<lparr>ui := ui (st_emit St_header w3) @ display_events 1 ?scrs files\<rparr>)"
    by (rule display_loop_ok) (simp_all add: lenf)
  then have D: "display_loop 1 ?scrs files (st_emit St_header w3) = (Inr (), w4)"
    by (simp add: w4_def st_emit_def)
  have T: "main_try e ?g (tmp_path e w) ?v w1 =
      (\<lparr>raised = None, slide_texts = ?texts, scripts = ?scrs, audio_files = Some files\<rparr>, w4)"
    unfolding main_try_def Let_def by (simp only: P L A D sum.case prod.case)
  have "fs ?ws (tmp_path e w) \<noteq> None"
    by (simp add: world_at_synthesis_frame)
  then have "fs w3 (tmp_path e w) \<noteq> None"
    unfolding w3 by (rule generate_audio_loop_fs_keeps)
  then have tmp_ex: "fs w4 (tmp_path e w) \<noteq> None"
    by (simp add: w4_def)
  have notin: "tmp_path e w \<notin> set files"
    unfolding files tmp_path_def by (rule tmp_path_notin_audio_paths)
  have all_ex: "\<forall>p \<in> set files. fs w3 p \<noteq> None"
  proof
    fix p assume "p \<in> set files"
    then have "p \<in> set (take (ok_prefix e ?v (length (tts_log ?ws)) ?scrs)
                   (audio_paths e 1 (draws ?ws) (length ?scrs)))"
      by (simp add: okp files)
    then show "fs w3 p \<noteq> None"
      unfolding w3 by (rule generate_audio_loop_fs_written)
  qed
  define w5 where "w5 = w4\<lparr>fs := (fs w4)(tmp_path e w := None)\<rparr>"
  have U: "unlink_each files w5 =
      (Inr (), w5\<lparr>fs := (\<lambda>p. if p \<in> set files then None else fs w5 p)\<rparr>)"
  proof (rule unlink_each_ok)
    show "distinct files" unfolding files by (rule distinct_audio_paths)
    show "\<forall>p \<in> set files. fs w5 p \<noteq> None"
      using all_ex notin by (auto simp: w5_def w4_def)
  qed
  have F: "main_finally (tmp_path e w) (Some files) w4 =
      (Inr (), w5\<lparr>fs := (\<lambda>p. if p \<in> set files then None else fs w5 p)\<rparr>)"
    using tmp_ex by (simp add: main_finally_def os_unlink_ok w5_def [symmetric] U)
  have M: "main e inp w =
     (Rendered ?texts ?scrs files,
      w5\<lparr>fs := (\<lambda>p. if p \<in> set files then None else fs w5 p)\<rparr>)"
    unfolding main_def Let_def w0_def [symmetric]
    by (simp only: gate option.distinct option.sel simp_thms if_True N T F prod.case
          main_locals.select_convs option.case sum.case fst_conv )
  have "(\<lambda>p. if p \<in> set files then None else fs w5 p) =
        (\<lambda>p. if p = tmp_path e w \<or> p \<in> set files then None else fs w3 p)"
    by (auto simp: fun_eq_iff w5_def w4_def)
  then show ?thesis
    unfolding M by (simp add: w5_def w4_def)
qed

text \<open>The requests of a run, whatever its path.\<close>

lemma main_llm_log_open:
  assumes gate: "process_button inp" "api_key inp \<noteq> []" "uploaded_file inp = Some data"
    and load: "load_pptx e data = Inr pres"
  shows "llm_log (snd (main e inp w)) =
     llm_log w @ map (script_request (ClaudePPTScriptGenerator_init (api_key inp)))
                     (extract_slide_text pres)"
proof -
  let ?A = "generate_audio e (run_scripts e inp pres w) (voice_options (selected_voice inp))
              (world_at_synthesis e inp pres w)"
  have fr: "llm_log (snd ?A) = llm_log (world_at_synthesis e inp pres w)"
    by (simp add: generate_audio_def generate_audio_loop_frame)
  obtain r w3 where A: "?A = (r, w3)" by (cases ?A)
  have "llm_log (snd (main e inp w)) = llm_log w3"
  proof (cases r)
    case (Inl ex)
    show ?thesis using main_abort [OF gate load A [unfolded Inl]] by simp
  next
    case r: (Inr files)
    show ?thesis using main_render [OF gate load A [unfolded r]] by simp
  qed
  with fr A show ?thesis by (simp add: world_at_synthesis_frame)
qed

lemma main_llm_log:
  "\<exists>texts. llm_log (snd (main e inp w)) =
     llm_log w @ map (script_request (ClaudePPTScriptGenerator_init (api_key inp))) texts"
proof (cases "process_button inp \<and> api_key inp \<noteq> [] \<and> uploaded_file inp \<noteq> None")
  case False
  then have "llm_log (snd (main e inp w)) =
      llm_log w @ map (script_request (ClaudePPTScriptGenerator_init (api_key inp))) []"
    by (simp add: main_closed)
  then show ?thesis by blast
next
  case True
  then obtain data where gate: "process_button inp" "api_key inp \<noteq> []"
      "uploaded_file inp = Some data" by auto
  show ?thesis
  proof (cases "load_pptx e data")
    case (Inl ex)
    have "llm_log (snd (main e inp w)) =
        llm_log w @ map (script_request (ClaudePPTScriptGenerator_init (api_key inp))) []"
      by (simp add: main_parse_fail_eq [OF gate Inl])
    then show ?thesis by blast
  next
    case (Inr pres)
    from main_llm_log_open [OF gate Inr] show ?thesis by blast
  qed
qed

text \<open>The scripts when the language model always fails.\<close>

lemma scripts_from_llm_down:
  "\<forall>k key req. \<exists>ex. first_block_text (messages_create e k key req) = Inl ex \<Longrightarrow>
   scripts_from e g k texts = map (\<lambda>t. ''Slide content: '' @ t) texts"
proof (induction texts arbitrary: k)
  case Nil
  show ?case by simp
next
  case (Cons t ts)
  from Cons.prems obtain ex where
    "first_block_text (messages_create e k (client g) (script_request g t)) = Inl ex" by blast
  then have "script_of e g k t = ''Slide content: '' @ t"
    by (simp add: script_of_def)
  with Cons show ?case by simp
qed

text \<open>The outcome of a run whose synthesis calls are all answered.\<close>

lemma filter_shown_display_events:
  "filter shown (display_events i ss files) = display_events i ss files"
  by (simp add: display_events_def filter_concat comp_def)

lemma nth_append_map:
  "i < length ys \<Longrightarrow> (xs @ map f ys) ! (length xs + i) = f (ys ! i)"
  by (simp add: nth_append)

lemma main_rendered_outcome:
  assumes gate: "process_button inp" "api_key inp \<noteq> []" "uploaded_file inp = Some data"
    and load: "load_pptx e data = Inr pres"
    and ok: "\<forall>j < length (run_scripts e inp pres w).
          \<exists>a. gTTS_result e (length (tts_log w) + j) (run_scripts e inp pres w ! j)
                 (voice_options (selected_voice inp)) = Inr a"
  shows "fst (main e inp w) =
     Rendered (extract_slide_text pres) (run_scripts e inp pres w)
       (audio_paths e 1 (Suc (draws w)) (length (extract_slide_text pres)))"
proof -
  let ?v = "voice_options (selected_voice inp)"
  let ?ws = "world_at_synthesis e inp pres w"
  let ?scrs = "run_scripts e inp pres w"
  have "\<forall>j < length ?scrs. \<exists>a. gTTS_result e (length (tts_log ?ws) + j) (?scrs ! j) ?v = Inr a"
    using ok by (simp add: world_at_synthesis_frame)
  then have "ok_prefix e ?v (length (tts_log ?ws)) ?scrs = length ?scrs"
    by (rule ok_prefix_all)
  then have "fst (generate_audio e ?scrs ?v ?ws) =
      Inr ([] @ audio_paths e 1 (draws ?ws) (length ?scrs))"
    unfolding generate_audio_def by (rule generate_audio_loop_fst_ok)
  then have A: "generate_audio e ?scrs ?v ?ws =
      (Inr (audio_paths e 1 (Suc (draws w)) (length (extract_slide_text pres))),
       snd (generate_audio e ?scrs ?v ?ws))"
    by (intro prod_eqI) (simp_all add: world_at_synthesis_frame run_scripts_def)
  show ?thesis
    using main_render [OF gate load A] by simp
qed

text \<open>
  A run that ends \<open>Rendered\<close> has removed every file it wrote: the copy of the document
  and all audio files.
\<close>

lemma rendered_run_cleans_up:
  assumes "main e inp w = (Rendered texts scrs files, w')"
  shows "\<forall>p \<in> set (drop (length (created w)) (created w')). fs w' p = None"
proof -
  have open_gate: "process_button inp \<and> api_key inp \<noteq> [] \<and> uploaded_file inp \<noteq> None"
  proof (rule ccontr)
    assume "\<not> ?thesis"
    then have "fst (main e inp w) = Idle" by (simp add: main_closed)
    with assms show False by simp
  qed
  then obtain data where gate: "process_button inp" "api_key inp \<noteq> []"
      "uploaded_file inp = Some data" by auto
  obtain pres where load: "load_pptx e data = Inr pres"
  proof (cases "load_pptx e data")
    case (Inl ex)
    from main_parse_fail_eq [OF gate Inl, of w] assms show ?thesis by simp
  next
    case (Inr pres)
    then show ?thesis by (rule that)
  qed
  let ?v = "voice_options (selected_voice inp)"
  let ?ws = "world_at_synthesis e inp pres w"
  let ?scrs = "run_scripts e inp pres w"
  obtain r w3 where A0: "generate_audio e ?scrs ?v ?ws = (r, w3)"
    by (cases "generate_audio e ?scrs ?v ?ws")
  obtain fl where r: "r = Inr fl"
  proof (cases r)
    case (Inl ex)
    from main_abort [OF gate load A0 [unfolded Inl]] assms show ?thesis by simp
  next
    case (Inr fl)
    then show ?thesis by (rule that)
  qed
  note A = A0 [unfolded r]
  from main_render [OF gate load A] assms have
    w': "w' = w3\<lparr>ui := ui w3 @ St_header # display_events 1 ?scrs fl,
               fs := (\<lambda>p. if p = tmp_path e w \<or> p \<in> set fl then None else fs w3 p)\<rparr>"
    by simp
  have w3: "w3 = snd (generate_audio_loop e ?v 1 ?scrs [] ?ws)"
    using A by (simp add: generate_audio_def)
  note okp = generate_audio_returns(1) [OF A]
  have fl: "fl = audio_paths e 1 (draws ?ws) (length ?scrs)"
    by (rule generate_audio_returns(2) [OF A])
  have okp': "ok_prefix e ?v (length (tts_log w)) ?scrs = length ?scrs"
    using okp by (simp add: world_at_synthesis_frame)
  have "created w' = created w @ tmp_path e w # fl"
    by (simp add: w' w3 generate_audio_loop_created files_written_ok [OF okp'] fl
          world_at_synthesis_frame)
  then show ?thesis by (simp add: w')
qed

subsection \<open>The extractor\<close>

lemma text_bearing_map:
  "text_bearing shs = map the (filter (\<lambda>t. t \<noteq> None) (map shape_text shs))"
  by (simp add: text_bearing_def filter_map comp_def)

text \<open>
  Claim C4. For a presentation with N slides \<open>extract_slide_text\<close> returns N strings in
  slide order; the string of slide \<open>i\<close> is the single-space join of the texts (empty ones
  included) of the shapes of that slide that have a text attribute, shapes without one
  being skipped; a slide none of whose shapes has a text attribute gives the empty
  string at its index.
\<close>

theorem extract_slide_text_contract:
  "length (extract_slide_text p) = length (slides p) \<and>
   (\<forall>i < length (slides p).
      extract_slide_text p ! i = str_join '' '' (text_bearing (shapes (slides p ! i)))) \<and>
   (\<forall>i < length (slides p).
      (\<forall>sh \<in> set (shapes (slides p ! i)). shape_text sh = None) \<longrightarrow>
      extract_slide_text p ! i = [])"
proof -
  have none: "text_bearing shs = []" if "\<forall>sh \<in> set shs. shape_text sh = None"
    for shs :: "'d shape_scheme list"
    using that by (simp add: text_bearing_def filter_empty_conv)
  show ?thesis
    by (simp add: extract_slide_text_map none)
qed

theorem extract_slide_text_contract_witness:
  "length (extract_slide_text deck2) = 2 \<and>
   extract_slide_text deck2 ! 0 = ''Intro '' \<and>
   extract_slide_text deck2 ! 1 = []"
proof -
  have len: "length (slides deck2) = 2"
    by (simp add: deck2_def)
  have l0: "(0::nat) < length (slides deck2)" and l1: "(1::nat) < length (slides deck2)"
    by (simp_all add: deck2_def)
  have none: "\<forall>sh \<in> set (shapes (slides deck2 ! 1)). shape_text sh = None"
    by (simp add: deck2_def)
  have "length (extract_slide_text deck2) = 2"
    using extract_slide_text_contract [of deck2] len by simp
  moreover have "extract_slide_text deck2 ! 0 =
      str_join '' '' (text_bearing (shapes (slides deck2 ! 0)))"
    using extract_slide_text_contract [of deck2] l0 by blast
  then have "extract_slide_text deck2 ! 0 = ''Intro ''"
    by (simp add: deck2_def text_bearing_def)
  moreover have "extract_slide_text deck2 ! 1 = []"
    using extract_slide_text_contract [of deck2] l1 none by blast
  ultimately show ?thesis by simp
qed

text \<open>
  Claim C9. \<open>extract_slide_text\<close> is a function of the slides and of the text attributes
  of their shapes only: two presentations that agree on these, whatever else they carry,
  give the same text sequence. In particular two applications to the same unmodified
  presentation give identical sequences.
\<close>

theorem extract_slide_text_deterministic:
  "map (\<lambda>sl. map shape_text (shapes sl)) (slides p) =
   map (\<lambda>sl. map shape_text (shapes sl)) (slides q)
   \<Longrightarrow> extract_slide_text p = extract_slide_text q"
proof -
  assume eq: "map (\<lambda>sl. map shape_text (shapes sl)) (slides p) =
              map (\<lambda>sl. map shape_text (shapes sl)) (slides q)"
  let ?f = "\<lambda>ts. str_join '' '' (map the (filter (\<lambda>t. t \<noteq> None) ts))"
  have "extract_slide_text p = map ?f (map (\<lambda>sl. map shape_text (shapes sl)) (slides p))"
    by (simp add: extract_slide_text_map text_bearing_map comp_def)
  also have "\<dots> = map ?f (map (\<lambda>sl. map shape_text (shapes sl)) (slides q))"
    by (simp only: eq)
  also have "\<dots> = extract_slide_text q"
    by (simp add: extract_slide_text_map text_bearing_map comp_def)
  finally show ?thesis .
qed

theorem extract_slide_text_deterministic_witness:
  "extract_slide_text deck2 = extract_slide_text \<lparr>slides = slides deck2, \<dots> = ''notes''\<rparr> \<and>
   extract_slide_text deck2 = [''Intro '', []]"
proof -
  have "map (\<lambda>sl. map shape_text (shapes sl)) (slides deck2) =
        map (\<lambda>sl. map shape_text (shapes sl)) (slides \<lparr>slides = slides deck2, \<dots> = ''notes''\<rparr>)"
    by simp
  then have "extract_slide_text deck2 =
      extract_slide_text \<lparr>slides = slides deck2, \<dots> = ''notes''\<rparr>"
    by (rule extract_slide_text_deterministic)
  then show ?thesis
    by (simp add: extract_slide_text_def deck2_def)
qed

subsection \<open>The gate\<close>

text \<open>
  Claim C6. Unless the button is pressed with a non-empty key and an uploaded document,
  \<open>main\<close> does no work: it ends \<open>Idle\<close>, sends no request to the language model, makes
  no synthesis call, writes no file (the list of all paths ever written is unchanged,
  and so are the files) and draws no random name.
\<close>

theorem input_gating:
  "\<not> (process_button inp \<and> api_key inp \<noteq> [] \<and> uploaded_file inp \<noteq> None) \<Longrightarrow>
   fst (main e inp w) = Idle \<and>
   llm_log (snd (main e inp w)) = llm_log w \<and>
   tts_log (snd (main e inp w)) = tts_log w \<and>
   created (snd (main e inp w)) = created w \<and>
   fs (snd (main e inp w)) = fs w \<and>
   draws (snd (main e inp w)) = draws w"
  by (simp add: main_closed)

theorem input_gating_witness:
  "fst (main env_ok (inputs_ok\<lparr>api_key := []\<rparr>) world0) = Idle \<and>
   llm_log (snd (main env_ok (inputs_ok\<lparr>api_key := []\<rparr>) world0)) = [] \<and>
   tts_log (snd (main env_ok (inputs_ok\<lparr>api_key := []\<rparr>) world0)) = [] \<and>
   created (snd (main env_ok (inputs_ok\<lparr>api_key := []\<rparr>) world0)) = []"
proof -
  have "\<not> (process_button (inputs_ok\<lparr>api_key := []\<rparr>) \<and>
           api_key (inputs_ok\<lparr>api_key := []\<rparr>) \<noteq> [] \<and>
           uploaded_file (inputs_ok\<lparr>api_key := []\<rparr>) \<noteq> None)"
    by simp
  from input_gating [OF this, of env_ok world0] show ?thesis
    by (simp add: world0_def)
qed

subsection \<open>The empty presentation\<close>

text \<open>
  Claim C7. A presentation with zero slides is not an error: the run ends \<open>Rendered\<close> with
  no slide text, no script and no audio path, sends no request to the language model
  and makes no synthesis call, and its cleanup has removed the copy of the document,
  the only file it wrote.
\<close>

theorem empty_presentation:
  assumes "process_button inp" "api_key inp \<noteq> []" "uploaded_file inp = Some data"
    and "load_pptx e data = Inr pres"
    and "slides pres = []"
  shows "main e inp w =
     (Rendered [] [] [],
      w\<lparr>ui := ui w @ [St_set_page_config, St_title, St_progress 0 1, St_header],
        created := created w @ [tmp_path e w], draws := Suc (draws w),
        fs := (fs w)(tmp_path e w := None)\<rparr>) \<and>
     llm_log (snd (main e inp w)) = llm_log w \<and>
     tts_log (snd (main e inp w)) = tts_log w"
proof -
  have texts: "extract_slide_text pres = []"
    using assms(5) by (simp add: extract_slide_text_def)
  have scrs: "run_scripts e inp pres w = []"
    by (simp add: run_scripts_def texts)
  have ws: "world_at_synthesis e inp pres w =
      w\<lparr>ui := ui w @ [St_set_page_config, St_title, St_progress 0 1],
        fs := (fs w)(tmp_path e w \<mapsto> data), created := created w @ [tmp_path e w],
        draws := Suc (draws w)\<rparr>"
    by (simp add: world_at_synthesis_def texts assms(3) NamedTemporaryFile_write_eq)
       (simp add: st_emit_def)
  have A: "generate_audio e (run_scripts e inp pres w) (voice_options (selected_voice inp))
             (world_at_synthesis e inp pres w) = (Inr [], world_at_synthesis e inp pres w)"
    by (simp add: scrs generate_audio_def)
  have "(\<lambda>p. if p = tmp_path e w \<or> p \<in> set [] then None
              else fs (world_at_synthesis e inp pres w) p) = (fs w)(tmp_path e w := None)"
    by (auto simp: fun_eq_iff ws)
  then have "main e inp w =
     (Rendered [] [] [],
      w\<lparr>ui := ui w @ [St_set_page_config, St_title, St_progress 0 1, St_header],
        created := created w @ [tmp_path e w], draws := Suc (draws w),
        fs := (fs w)(tmp_path e w := None)\<rparr>)"
    using main_render [OF assms(1-4) A]
    by (simp add: texts scrs display_events_def) (simp add: ws)
  then show ?thesis by simp
qed

theorem empty_presentation_witness:
  "main env_empty_deck inputs_ok world0 =
     (Rendered [] [] [],
      world0\<lparr>ui := ui world0 @ [St_set_page_config, St_title, St_progress 0 1, St_header],
        created := created world0 @ [tmp_path env_empty_deck world0],
        draws := Suc (draws world0),
        fs := (fs world0)(tmp_path env_empty_deck world0 := None)\<rparr>) \<and>
   llm_log (snd (main env_empty_deck inputs_ok world0)) = [] \<and>
   tts_log (snd (main env_empty_deck inputs_ok world0)) = []"
proof -
  have "process_button inputs_ok" "api_key inputs_ok \<noteq> []"
    "uploaded_file inputs_ok = Some ''PK''" "load_pptx env_empty_deck ''PK'' = Inr deck0"
    "slides deck0 = []"
    by (simp_all add: inputs_ok_def env_empty_deck_def env_ok_def deck0_def)
  from empty_presentation [OF this, of world0] show ?thesis
    by (simp add: world0_def)
qed

subsection \<open>Names of the audio artifacts\<close>

text \<open>
  Claim C8. When the synthesis service answers for every script, \<open>generate_audio\<close> returns
  one path per script, in script order: the path of script \<open>j\<close> (counted from 0) is the
  temp directory joined with \<open>slide_\<close>, the index \<open>j + 1\<close>, \<open>_\<close>, the identifier drawn
  for it and \<open>.mp3\<close>. The paths of one run are pairwise distinct, and two such paths in
  the same temp directory are equal only if both the index and the identifier are
  equal, so artifacts named with distinct identifiers never share a name. The files
  written and the synthesis calls made are these paths, in the same order as the scripts.
\<close>

theorem audio_artifact_naming:
  assumes "\<forall>j < length ss. \<exists>a. gTTS_result e (length (tts_log w) + j) (ss ! j) voice = Inr a"
  shows "fst (generate_audio e ss voice w) =
           Inr (map (\<lambda>j. os_path_join (gettempdir e)
                          (''slide_'' @ str_nat (Suc j) @ ''_'' @ uuid4 e (draws w + j) @ ''.mp3''))
                  [0..<length ss]) \<and>
         (\<forall>j u. os_path_join (gettempdir e) (audio_filename j u) =
            gettempdir e
            @ (if gettempdir e = [] \<or> last (gettempdir e) = CHR ''/'' then [] else ''/'')
            @ ''slide_'' @ str_nat j @ ''_'' @ u @ ''.mp3'') \<and>
         distinct (audio_paths e 1 (draws w) (length ss)) \<and>
         (\<forall>i j u u'. os_path_join (gettempdir e) (audio_filename i u) =
                      os_path_join (gettempdir e) (audio_filename j u') \<longrightarrow> i = j \<and> u = u') \<and>
         created (snd (generate_audio e ss voice w)) =
           created w @ audio_paths e 1 (draws w) (length ss) \<and>
         tts_log (snd (generate_audio e ss voice w)) =
           tts_log w @ map (\<lambda>(s, p). (s, voice, p)) (zip ss (audio_paths e 1 (draws w) (length ss)))"
proof -
  have okp: "ok_prefix e voice (length (tts_log w)) ss = length ss"
    using assms by (rule ok_prefix_all)
  have paths: "audio_paths e 1 (draws w) (length ss) =
      map (\<lambda>j. os_path_join (gettempdir e)
                  (''slide_'' @ str_nat (Suc j) @ ''_'' @ uuid4 e (draws w + j) @ ''.mp3''))
          [0..<length ss]"
    by (simp add: audio_paths_def audio_filename_def)
  have "fst (generate_audio e ss voice w) = Inr ([] @ audio_paths e 1 (draws w) (length ss))"
    unfolding generate_audio_def using okp by (rule generate_audio_loop_fst_ok)
  then have 1: "fst (generate_audio e ss voice w) =
           Inr (map (\<lambda>j. os_path_join (gettempdir e)
                          (''slide_'' @ str_nat (Suc j) @ ''_'' @ uuid4 e (draws w + j) @ ''.mp3''))
                  [0..<length ss])"
    by (simp only: paths append_Nil)
  have 2: "\<forall>j u. os_path_join (gettempdir e) (audio_filename j u) =
            gettempdir e
            @ (if gettempdir e = [] \<or> last (gettempdir e) = CHR ''/'' then [] else ''/'')
            @ ''slide_'' @ str_nat j @ ''_'' @ u @ ''.mp3''"
    by (simp add: os_path_join_def audio_filename_def)
  have 3: "distinct (audio_paths e 1 (draws w) (length ss))"
    by (rule distinct_audio_paths)
  have 4: "\<forall>i j u u'. os_path_join (gettempdir e) (audio_filename i u) =
                      os_path_join (gettempdir e) (audio_filename j u') \<longrightarrow> i = j \<and> u = u'"
    using audio_path_inj by blast
  have 5: "created (snd (generate_audio e ss voice w)) =
           created w @ audio_paths e 1 (draws w) (length ss)"
    by (simp add: generate_audio_def generate_audio_loop_created files_written_ok [OF okp])
  have 6: "tts_log (snd (generate_audio e ss voice w)) =
           tts_log w @ map (\<lambda>(s, p). (s, voice, p)) (zip ss (audio_paths e 1 (draws w) (length ss)))"
    unfolding generate_audio_def using okp by (rule generate_audio_loop_tts_log_ok)
  from 1 2 3 4 5 6 show ?thesis by blast
qed

theorem audio_artifact_naming_witness:
  "fst (generate_audio env_ok [''a'', ''b''] ''en'' world0) =
     Inr [''/tmp/slide_1_u0.mp3'', ''/tmp/slide_2_u1.mp3''] \<and>
   created (snd (generate_audio env_ok [''a'', ''b''] ''en'' world0)) =
     [''/tmp/slide_1_u0.mp3'', ''/tmp/slide_2_u1.mp3'']"
proof -
  have h: "\<forall>j < length [''a'', ''b''].
        \<exists>a. gTTS_result env_ok (length (tts_log world0) + j) ([''a'', ''b''] ! j) ''en'' = Inr a"
    by (simp add: env_ok_def)
  have p: "audio_paths env_ok 1 (draws world0) (length [''a'', ''b'']) =
        [''/tmp/slide_1_u0.mp3'', ''/tmp/slide_2_u1.mp3'']"
    by code_simp
  have c: "created world0 = []" by (simp add: world0_def)
  have m: "map (\<lambda>j. os_path_join (gettempdir env_ok)
                  (''slide_'' @ str_nat (Suc j) @ ''_'' @ uuid4 env_ok (draws world0 + j) @ ''.mp3''))
          [0..<length [''a'', ''b'']] = [''/tmp/slide_1_u0.mp3'', ''/tmp/slide_2_u1.mp3'']"
    by code_simp
  from audio_artifact_naming [OF h] show ?thesis
    unfolding p c m by simp
qed

subsection \<open>Scripting degrades, it does not fail\<close>

text \<open>
  Claim C2. If the call of the language model fails for a slide text (the call raises,
  or its answer has no first text block), \<open>generate_slide_script\<close> returns the string
  \<open>Slide content: \<close> followed by the slide text, having reported the failure; it has no
  exceptional result. If the language model fails at every call, the scripting loop
  yields one such fallback script per slide text, and the run, its synthesis calls being
  answered, goes on through synthesis to \<open>Rendered\<close> with exactly these scripts.
\<close>

theorem degrade_not_fail:
  "(first_block_text (messages_create e (length (llm_log w)) (client g) (script_request g slide_text))
      = Inl ex \<longrightarrow>
    generate_slide_script e g slide_text w =
      (''Slide content: '' @ slide_text,
       w\<lparr>llm_log := llm_log w @ [script_request g slide_text],
         ui := ui w @ [St_error (''Error generating script with Claude: '' @ str_exn ex)]\<rparr>)) \<and>
   ((\<forall>k key req. \<exists>x. first_block_text (messages_create e k key req) = Inl x) \<longrightarrow>
      fst (scripting_loop e g i n texts [] w) = map (\<lambda>t. ''Slide content: '' @ t) texts \<and>
      (process_button inp \<and> api_key inp \<noteq> [] \<and> uploaded_file inp = Some data \<and>
       load_pptx e data = Inr pres \<and>
       (\<forall>j < length (extract_slide_text pres).
          \<exists>a. gTTS_result e (length (tts_log w) + j)
                 (''Slide content: '' @ extract_slide_text pres ! j)
                 (voice_options (selected_voice inp)) = Inr a) \<longrightarrow>
       fst (main e inp w) =
         Rendered (extract_slide_text pres)
           (map (\<lambda>t. ''Slide content: '' @ t) (extract_slide_text pres))
           (audio_paths e 1 (Suc (draws w)) (length (extract_slide_text pres)))))"
proof (intro conjI impI)
  assume "first_block_text (messages_create e (length (llm_log w)) (client g)
            (script_request g slide_text)) = Inl ex"
  then show "generate_slide_script e g slide_text w =
      (''Slide content: '' @ slide_text,
       w\<lparr>llm_log := llm_log w @ [script_request g slide_text],
         ui := ui w @ [St_error (''Error generating script with Claude: '' @ str_exn ex)]\<rparr>)"
    by (simp add: generate_slide_script_def st_emit_def Let_def)
next
  assume down: "\<forall>k key req. \<exists>x. first_block_text (messages_create e k key req) = Inl x"
  show "fst (scripting_loop e g i n texts [] w) = map (\<lambda>t. ''Slide content: '' @ t) texts"
    by (simp add: scripting_loop_fst scripts_from_llm_down [OF down])
next
  assume down: "\<forall>k key req. \<exists>x. first_block_text (messages_create e k key req) = Inl x"
  assume run: "process_button inp \<and> api_key inp \<noteq> [] \<and> uploaded_file inp = Some data \<and>
       load_pptx e data = Inr pres \<and>
       (\<forall>j < length (extract_slide_text pres).
          \<exists>a. gTTS_result e (length (tts_log w) + j)
                 (''Slide content: '' @ extract_slide_text pres ! j)
                 (voice_options (selected_voice inp)) = Inr a)"
  let ?texts = "extract_slide_text pres"
  let ?v = "voice_options (selected_voice inp)"
  let ?ws = "world_at_synthesis e inp pres w"
  from run have gate: "process_button inp" "api_key inp \<noteq> []" "uploaded_file inp = Some data"
    and load: "load_pptx e data = Inr pres" by simp_all
  have scrs: "run_scripts e inp pres w = map (\<lambda>t. ''Slide content: '' @ t) ?texts"
    by (simp add: run_scripts_def scripts_from_llm_down [OF down])
  have "\<forall>j < length (run_scripts e inp pres w).
          \<exists>a. gTTS_result e (length (tts_log ?ws) + j) (run_scripts e inp pres w ! j) ?v = Inr a"
    using run by (simp add: scrs world_at_synthesis_frame)
  then have "ok_prefix e ?v (length (tts_log ?ws)) (run_scripts e inp pres w) =
             length (run_scripts e inp pres w)"
    by (rule ok_prefix_all)
  then have "fst (generate_audio e (run_scripts e inp pres w) ?v ?ws) =
      Inr ([] @ audio_paths e 1 (draws ?ws) (length (run_scripts e inp pres w)))"
    unfolding generate_audio_def by (rule generate_audio_loop_fst_ok)
  then have A: "generate_audio e (run_scripts e inp pres w) ?v ?ws =
      (Inr (audio_paths e 1 (Suc (draws w)) (length ?texts)),
       snd (generate_audio e (run_scripts e inp pres w) ?v ?ws))"
    by (intro prod_eqI) (simp_all add: scrs world_at_synthesis_frame)
  show "fst (main e inp w) =
         Rendered ?texts (map (\<lambda>t. ''Slide content: '' @ t) ?texts)
           (audio_paths e 1 (Suc (draws w)) (length ?texts))"
    using main_render [OF gate load A] by (simp add: scrs)
qed

theorem degrade_not_fail_witness:
  "generate_slide_script env_llm_down (ClaudePPTScriptGenerator_init ''sk'') ''Intro'' world0 =
     (''Slide content: Intro'',
      world0\<lparr>llm_log := llm_log world0 @
                 [script_request (ClaudePPTScriptGenerator_init ''sk'') ''Intro''],
             ui := ui world0 @ [St_error (''Error generating script with Claude: 401'')]\<rparr>) \<and>
   fst (main env_llm_down inputs_ok world0) =
     Rendered [''Intro '', []] [''Slide content: Intro '', ''Slide content: '']
       [''/tmp/slide_1_u1.mp3'', ''/tmp/slide_2_u2.mp3'']"
proof -
  note T = degrade_not_fail [of env_llm_down world0 "ClaudePPTScriptGenerator_init ''sk''"
      "''Intro''" "Exception ''401''" 0 0 "[]" inputs_ok "''PK''" deck2]
  have h1: "first_block_text (messages_create env_llm_down (length (llm_log world0))
              (client (ClaudePPTScriptGenerator_init ''sk''))
              (script_request (ClaudePPTScriptGenerator_init ''sk'') ''Intro''))
            = Inl (Exception ''401'')"
    by (simp add: env_llm_down_def env_ok_def world0_def)
  have h2: "\<forall>k key req. \<exists>x. first_block_text (messages_create env_llm_down k key req) = Inl x"
    by (simp add: env_llm_down_def env_ok_def)
  have h3: "process_button inputs_ok \<and> api_key inputs_ok \<noteq> [] \<and>
       uploaded_file inputs_ok = Some ''PK'' \<and> load_pptx env_llm_down ''PK'' = Inr deck2 \<and>
       (\<forall>j < length (extract_slide_text deck2).
          \<exists>a. gTTS_result env_llm_down (length (tts_log world0) + j)
                 (''Slide content: '' @ extract_slide_text deck2 ! j)
                 (voice_options (selected_voice inputs_ok)) = Inr a)"
    by (simp add: inputs_ok_def env_llm_down_def env_ok_def)
  have texts: "extract_slide_text deck2 = [''Intro '', []]"
    by (simp add: extract_slide_text_def deck2_def)
  have paths: "audio_paths env_llm_down 1 (Suc (draws world0)) (length [''Intro '', []]) =
       [''/tmp/slide_1_u1.mp3'', ''/tmp/slide_2_u2.mp3'']"
    by code_simp
  from T h1 h2 h3 have
    a: "generate_slide_script env_llm_down (ClaudePPTScriptGenerator_init ''sk'') ''Intro'' world0 =
     (''Slide content: Intro'',
      world0\<lparr>llm_log := llm_log world0 @
                 [script_request (ClaudePPTScriptGenerator_init ''sk'') ''Intro''],
             ui := ui world0 @ [St_error (''Error generating script with Claude: '' @ str_exn (Exception ''401''))]\<rparr>)"
    and b: "fst (main env_llm_down inputs_ok world0) =
         Rendered (extract_slide_text deck2)
           (map (\<lambda>t. ''Slide content: '' @ t) (extract_slide_text deck2))
           (audio_paths env_llm_down 1 (Suc (draws world0)) (length (extract_slide_text deck2)))"
    by (simp_all del: append.simps)
  from a b show ?thesis
    unfolding texts paths by simp
qed

subsection \<open>The parameters of the requests\<close>

text \<open>
  Claim C10. Every request that \<open>generate_slide_script\<close> sends, for every slide text and
  every generator built by the constructor, names the model
  \<open>claude-3-5-sonnet-20240620\<close> and caps the output at 300 tokens; the function takes no
  model argument. So does every request that a run of \<open>main\<close> sends.
\<close>

theorem fixed_llm_request_parameters:
  "llm_log (snd (generate_slide_script e (ClaudePPTScriptGenerator_init key) slide_text w)) =
     llm_log w @
       [\<lparr>request_model = ''claude-3-5-sonnet-20240620'', max_tokens = 300,
         messages = [\<lparr>role = ''user'', content = script_prompt slide_text\<rparr>]\<rparr>] \<and>
   (\<forall>r \<in> set (drop (length (llm_log w)) (llm_log (snd (main e inp w)))).
      request_model r = ''claude-3-5-sonnet-20240620'' \<and> max_tokens r = 300)"
proof -
  have 1: "llm_log (snd (generate_slide_script e (ClaudePPTScriptGenerator_init key) slide_text w)) =
     llm_log w @
       [\<lparr>request_model = ''claude-3-5-sonnet-20240620'', max_tokens = 300,
         messages = [\<lparr>role = ''user'', content = script_prompt slide_text\<rparr>]\<rparr>]"
    by (simp add: generate_slide_script_llm_log script_request_def
          ClaudePPTScriptGenerator_init_def)
  obtain texts where "llm_log (snd (main e inp w)) =
     llm_log w @ map (script_request (ClaudePPTScriptGenerator_init (api_key inp))) texts"
    using main_llm_log by blast
  then have 2: "\<forall>r \<in> set (drop (length (llm_log w)) (llm_log (snd (main e inp w)))).
      request_model r = ''claude-3-5-sonnet-20240620'' \<and> max_tokens r = 300"
    by (auto simp: script_request_def ClaudePPTScriptGenerator_init_def)
  from 1 2 show ?thesis by blast
qed

theorem fixed_llm_request_parameters_witness:
  "length (llm_log (snd (main env_ok inputs_ok world0))) = 2 \<and>
   request_model (llm_log (snd (main env_ok inputs_ok world0)) ! 1) =
     ''claude-3-5-sonnet-20240620'' \<and>
   max_tokens (llm_log (snd (main env_ok inputs_ok world0)) ! 1) = 300"
proof -
  have "process_button inputs_ok" "api_key inputs_ok \<noteq> []"
    "uploaded_file inputs_ok = Some ''PK''" "load_pptx env_ok ''PK'' = Inr deck2"
    by (simp_all add: inputs_ok_def env_ok_def)
  from main_llm_log_open [OF this, of world0]
  have len: "length (llm_log (snd (main env_ok inputs_ok world0))) = 2"
    by (simp add: world0_def extract_slide_text_def deck2_def)
  have l0: "length (llm_log world0) = 0"
    by (simp add: world0_def)
  have "llm_log (snd (main env_ok inputs_ok world0)) ! 1
          \<in> set (drop (length (llm_log world0)) (llm_log (snd (main env_ok inputs_ok world0))))"
    unfolding l0 using len by simp
  with fixed_llm_request_parameters [of env_ok "''sk''" "''Intro''" world0 inputs_ok]
  show ?thesis using len by blast
qed

subsection \<open>A failure of the synthesis is fatal to the run\<close>

text \<open>
  Claim C3, as stated, says that a run whose synthesis fails goes to its cleanup without
  having produced partial audio. In the run below the request of the second synthesis
  fails: by then \<open>generate_audio\<close> has saved the audio of the first slide, and \<open>save\<close>
  has opened the file of the second.
\<close>

theorem tts_failure_partial_audio_counterexample:
  "gTTS_result env_tts_fails_second 1 ''Welcome.'' ''en'' = Inl (Exception ''429'', Some []) \<and>
   fst (main env_tts_fails_second inputs_ok world0) = Aborted (Exception ''429'') \<and>
   created world0 = [] \<and>
   created (snd (main env_tts_fails_second inputs_ok world0)) =
     [''/tmp/tmpr0.pptx'', ''/tmp/slide_1_u1.mp3'', ''/tmp/slide_2_u2.mp3''] \<and>
   fs (snd (generate_audio env_tts_fails_second [''Welcome.'', ''Welcome.''] ''en''
             (world_at_synthesis env_tts_fails_second inputs_ok deck2 world0)))
      ''/tmp/slide_1_u1.mp3'' = Some ''mp3''"
  by code_simp

text \<open>
  Claim C3, amended. If the synthesis service fails for a script, the first such failure
  is raised out of \<open>generate_audio\<close> to \<open>main\<close>; the run ends \<open>Aborted\<close> with that
  exception, the last thing shown is the error with the message of the exception, no
  script and no audio are shown, no synthesis call follows the failing one, and the
  cleanup runs (the copy of the document is removed). No audio path is returned to
  \<open>main\<close>; the files written by the run are the copy of the document, the audio of the
  scripts before the failing one, which \<open>generate_audio\<close> had already saved, and, when
  the failure came after \<open>save\<close> had opened its file, the file of the failing script.
\<close>

theorem tts_failure_is_fatal:
  assumes gate: "process_button inp" "api_key inp \<noteq> []" "uploaded_file inp = Some data"
    and load: "load_pptx e data = Inr pres"
    and m: "m < length (run_scripts e inp pres w)"
    and fail: "gTTS_result e (length (tts_log w) + m) (run_scripts e inp pres w ! m)
                 (voice_options (selected_voice inp)) = Inl (ex, left)"
    and before: "\<forall>j < m. \<exists>a. gTTS_result e (length (tts_log w) + j)
                   (run_scripts e inp pres w ! j) (voice_options (selected_voice inp)) = Inr a"
  shows "fst (generate_audio e (run_scripts e inp pres w) (voice_options (selected_voice inp))
                (world_at_synthesis e inp pres w)) = Inl ex \<and>
         fst (main e inp w) = Aborted ex \<and>
         last (ui (snd (main e inp w))) = St_error (''An error occurred: '' @ str_exn ex) \<and>
         filter shown (ui (snd (main e inp w))) = filter shown (ui w) \<and>
         length (tts_log (snd (main e inp w))) = length (tts_log w) + Suc m \<and>
         fs (snd (main e inp w)) (tmp_path e w) = None \<and>
         created (snd (main e inp w)) =
           created w @ tmp_path e w #
             take (if left = None then m else Suc m)
               (audio_paths e 1 (Suc (draws w)) (length (run_scripts e inp pres w)))"
proof -
  let ?v = "voice_options (selected_voice inp)"
  let ?scrs = "run_scripts e inp pres w"
  let ?ws = "world_at_synthesis e inp pres w"
  from ok_prefix_first_failure [OF m fail before]
  have okp': "ok_prefix e ?v (length (tts_log w)) ?scrs = m"
    and fw': "files_written e ?v (length (tts_log w)) ?scrs = (if left = None then m else Suc m)"
    by blast+
  have okp: "ok_prefix e ?v (length (tts_log ?ws)) ?scrs = m"
    using okp' by (simp add: world_at_synthesis_frame)
  then have lt: "ok_prefix e ?v (length (tts_log ?ws)) ?scrs < length ?scrs"
    using m by simp
  from generate_audio_loop_fst_fail [OF lt, of 1 "[]"] obtain ex' left' where
    ex': "gTTS_result e (length (tts_log ?ws) + m) (?scrs ! m) ?v = Inl (ex', left')"
    and r: "fst (generate_audio_loop e ?v 1 ?scrs [] ?ws) = Inl ex'"
    unfolding okp by blast
  from ex' fail have "ex' = ex" by (simp add: world_at_synthesis_frame)
  with r have raised: "fst (generate_audio e ?scrs ?v ?ws) = Inl ex"
    by (simp add: generate_audio_def)
  define w3 where "w3 = snd (generate_audio e ?scrs ?v ?ws)"
  have A: "generate_audio e ?scrs ?v ?ws = (Inl ex, w3)"
    using raised by (simp add: w3_def prod_eq_iff)
  have M: "main e inp w =
     (Aborted ex,
      w3\<lparr>ui := ui w3 @ [St_error (''An error occurred: '' @ str_exn ex)],
         fs := (fs w3)(tmp_path e w := None)\<rparr>)"
    by (rule main_abort [OF gate load A])
  have ui3: "ui w3 = ui ?ws"
    by (simp add: w3_def generate_audio_def generate_audio_loop_frame)
  have tts3: "length (tts_log w3) = length (tts_log w) + Suc m"
    using m by (simp add: w3_def generate_audio_def generate_audio_loop_tts_len okp'
                  world_at_synthesis_frame)
  have cr3: "created w3 = created w @ tmp_path e w #
               take (if left = None then m else Suc m)
                 (audio_paths e 1 (Suc (draws w)) (length ?scrs))"
    by (simp add: w3_def generate_audio_def generate_audio_loop_created fw'
          world_at_synthesis_frame)
  show ?thesis
    unfolding M using raised tts3 cr3
    by (simp add: ui3 world_at_synthesis_frame)
qed

theorem tts_failure_is_fatal_witness:
  "fst (generate_audio env_tts_fails_second [''Welcome.'', ''Welcome.''] ''en''
          (world_at_synthesis env_tts_fails_second inputs_ok deck2 world0))
     = Inl (Exception ''429'') \<and>
   fst (main env_tts_fails_second inputs_ok world0) = Aborted (Exception ''429'') \<and>
   last (ui (snd (main env_tts_fails_second inputs_ok world0))) =
     St_error ''An error occurred: 429'' \<and>
   filter shown (ui (snd (main env_tts_fails_second inputs_ok world0))) = [] \<and>
   length (tts_log (snd (main env_tts_fails_second inputs_ok world0))) = 2 \<and>
   created (snd (main env_tts_fails_second inputs_ok world0)) =
     [''/tmp/tmpr0.pptx'', ''/tmp/slide_1_u1.mp3'', ''/tmp/slide_2_u2.mp3'']"
proof -
  have scrs: "run_scripts env_tts_fails_second inputs_ok deck2 world0 = [''Welcome.'', ''Welcome.'']"
    by (simp add: run_scripts_def extract_slide_text_def deck2_def script_of_def
          env_tts_fails_second_def env_ok_def)
  have g: "process_button inputs_ok" "api_key inputs_ok \<noteq> []"
    "uploaded_file inputs_ok = Some ''PK''" "load_pptx env_tts_fails_second ''PK'' = Inr deck2"
    by (simp_all add: inputs_ok_def env_tts_fails_second_def env_ok_def)
  have m: "1 < length (run_scripts env_tts_fails_second inputs_ok deck2 world0)"
    by (simp add: scrs)
  have fail: "gTTS_result env_tts_fails_second (length (tts_log world0) + 1)
      (run_scripts env_tts_fails_second inputs_ok deck2 world0 ! 1)
      (voice_options (selected_voice inputs_ok)) = Inl (Exception ''429'', Some [])"
    by (simp add: env_tts_fails_second_def env_ok_def)
  have before: "\<forall>j < 1. \<exists>a. gTTS_result env_tts_fails_second (length (tts_log world0) + j)
      (run_scripts env_tts_fails_second inputs_ok deck2 world0 ! j)
      (voice_options (selected_voice inputs_ok)) = Inr a"
    by (simp add: env_tts_fails_second_def env_ok_def world0_def)
  have v: "voice_options (selected_voice inputs_ok) = ''en''"
    by (simp add: inputs_ok_def)
  have tmp: "tmp_path env_tts_fails_second world0 = ''/tmp/tmpr0.pptx''"
    by code_simp
  have paths: "take (Suc 1) (audio_paths env_tts_fails_second 1 (Suc (draws world0))
        (length [''Welcome.'', ''Welcome.'']))
      = [''/tmp/slide_1_u1.mp3'', ''/tmp/slide_2_u2.mp3'']"
    by code_simp
  have w0: "ui world0 = []" "tts_log world0 = []" "created world0 = []"
    by (simp_all add: world0_def)
  have sel: "(if Some ([] :: bytes) = None then (1::nat) else Suc 1) = Suc 1"
    by simp
  from tts_failure_is_fatal [OF g m fail before]
  show ?thesis
    unfolding scrs v tmp sel paths w0 by simp
qed

subsection \<open>Cleanup after an aborted synthesis\<close>

text \<open>
  Claim C1 says that after the cleanup no temporary file of the run remains, whatever
  its outcome. The cleanup of \<open>main\<close> removes the audio files only when \<open>audio_files\<close> is
  bound, which it is not when \<open>generate_audio\<close> raised. In the run below the second
  synthesis call fails: the run is aborted, the copy of the document is removed, and
  the audio file of the first slide, which did not exist before, is still there.
\<close>

theorem cleanup_leaves_audio_of_aborted_run:
  "fst (main env_tts_fails_second inputs_ok world0) = Aborted (Exception ''429'') \<and>
   fs world0 ''/tmp/slide_1_u1.mp3'' = None \<and>
   fs (snd (main env_tts_fails_second inputs_ok world0)) ''/tmp/slide_1_u1.mp3'' = Some ''mp3'' \<and>
   fs (snd (main env_tts_fails_second inputs_ok world0)) ''/tmp/tmpr0.pptx'' = None"
  by code_simp

subsection \<open>Alignment of slide texts, scripts and audio\<close>

text \<open>
  Claim C5. In every run that completes the synthesis (and so ends \<open>Rendered\<close>), the
  slide texts, the scripts and the audio paths have the same length; the slide texts
  are those extracted from the uploaded presentation; and for every index \<open>i\<close> the script
  \<open>i\<close> is what \<open>generate_slide_script\<close> returned for slide text \<open>i\<close>, requested with the
  \<open>i\<close>-th request of the run, and the \<open>i\<close>-th synthesis call of the run was made with
  script \<open>i\<close> and saved to audio path \<open>i\<close>. The display shows script \<open>i\<close> with audio \<open>i\<close>.
\<close>

theorem alignment_invariant:
  assumes "main e inp w = (Rendered texts scrs files, w')"
  shows "length scrs = length texts \<and> length files = length texts \<and>
     (\<exists>data pres. uploaded_file inp = Some data \<and> load_pptx e data = Inr pres \<and>
        texts = extract_slide_text pres) \<and>
     (\<forall>i < length texts.
        scrs ! i = script_of e (ClaudePPTScriptGenerator_init (api_key inp))
                     (length (llm_log w) + i) (texts ! i) \<and>
        llm_log w' ! (length (llm_log w) + i) =
          script_request (ClaudePPTScriptGenerator_init (api_key inp)) (texts ! i) \<and>
        tts_log w' ! (length (tts_log w) + i) =
          (scrs ! i, voice_options (selected_voice inp), files ! i)) \<and>
     filter shown (ui w') = filter shown (ui w) @ St_header # display_events 1 scrs files"
proof -
  let ?g = "ClaudePPTScriptGenerator_init (api_key inp)"
  let ?v = "voice_options (selected_voice inp)"
  have open_gate: "process_button inp \<and> api_key inp \<noteq> [] \<and> uploaded_file inp \<noteq> None"
  proof (rule ccontr)
    assume "\<not> ?thesis"
    then have "fst (main e inp w) = Idle" by (simp add: main_closed)
    with assms show False by simp
  qed
  then obtain data where gate: "process_button inp" "api_key inp \<noteq> []"
      "uploaded_file inp = Some data" by auto
  obtain pres where load: "load_pptx e data = Inr pres"
  proof (cases "load_pptx e data")
    case (Inl ex)
    from main_parse_fail_eq [OF gate Inl, of w] assms show ?thesis by simp
  next
    case (Inr pres)
    then show ?thesis by (rule that)
  qed
  let ?ws = "world_at_synthesis e inp pres w"
  let ?scrs = "run_scripts e inp pres w"
  obtain r w3 where A0: "generate_audio e ?scrs ?v ?ws = (r, w3)"
    by (cases "generate_audio e ?scrs ?v ?ws")
  obtain fl where r: "r = Inr fl"
  proof (cases r)
    case (Inl ex)
    from main_abort [OF gate load A0 [unfolded Inl]] assms show ?thesis by simp
  next
    case (Inr fl)
    then show ?thesis by (rule that)
  qed
  note A = A0 [unfolded r]
  from main_render [OF gate load A] assms have
    texts: "texts = extract_slide_text pres" and scrs: "scrs = ?scrs" and files: "files = fl"
    and w': "w' = w3\<lparr>ui := ui w3 @ St_header # display_events 1 ?scrs fl,
               fs := (\<lambda>p. if p = tmp_path e w \<or> p \<in> set fl then None else fs w3 p)\<rparr>"
    by simp_all
  have w3: "w3 = snd (generate_audio_loop e ?v 1 ?scrs [] ?ws)"
    using A by (simp add: generate_audio_def)
  note okp = generate_audio_returns(1) [OF A]
  have fl: "fl = audio_paths e 1 (draws ?ws) (length ?scrs)"
    by (rule generate_audio_returns(2) [OF A])
  have len_s: "length scrs = length texts"
    by (simp add: scrs texts run_scripts_def)
  have len_f: "length files = length texts"
    by (simp add: files fl texts run_scripts_def)
  have llm: "llm_log w' = llm_log w @ map (script_request ?g) texts"
    by (simp add: w' w3 generate_audio_loop_frame world_at_synthesis_frame texts)
  have tts: "tts_log w' = tts_log w @ map (\<lambda>(s, p). (s, ?v, p)) (zip scrs files)"
    using generate_audio_loop_tts_log_ok [OF okp, of 1 "[]"]
    by (simp add: w' w3 world_at_synthesis_frame scrs files fl)
  have ui: "filter shown (ui w') = filter shown (ui w) @ St_header # display_events 1 scrs files"
    by (simp add: w' filter_shown_display_events scrs files)
       (simp add: w3 generate_audio_loop_frame world_at_synthesis_frame)
  have idx: "\<forall>i < length texts.
        scrs ! i = script_of e ?g (length (llm_log w) + i) (texts ! i) \<and>
        llm_log w' ! (length (llm_log w) + i) = script_request ?g (texts ! i) \<and>
        tts_log w' ! (length (tts_log w) + i) = (scrs ! i, ?v, files ! i)"
  proof (intro allI impI conjI)
    fix i assume i: "i < length texts"
    show "scrs ! i = script_of e ?g (length (llm_log w) + i) (texts ! i)"
      using i by (simp add: scrs run_scripts_def texts nth_scripts_from)
    show "llm_log w' ! (length (llm_log w) + i) = script_request ?g (texts ! i)"
      unfolding llm using i by (rule nth_append_map)
    have "i < length (zip scrs files)" using i len_s len_f by simp
    then have "tts_log w' ! (length (tts_log w) + i) =
        (\<lambda>(s, p). (s, ?v, p)) (zip scrs files ! i)"
      unfolding tts by (rule nth_append_map)
    then show "tts_log w' ! (length (tts_log w) + i) = (scrs ! i, ?v, files ! i)"
      using i len_s len_f by simp
  qed
  from gate(3) load texts have src: "\<exists>data pres. uploaded_file inp = Some data \<and>
      load_pptx e data = Inr pres \<and> texts = extract_slide_text pres" by blast
  from len_s len_f src idx ui show ?thesis by blast
qed

theorem alignment_invariant_witness:
  "main env_ok inputs_ok world0 =
     (Rendered [''Intro '', []] [''Welcome.'', ''Welcome.'']
        [''/tmp/slide_1_u1.mp3'', ''/tmp/slide_2_u2.mp3''],
      snd (main env_ok inputs_ok world0)) \<and>
   tts_log (snd (main env_ok inputs_ok world0)) ! 1 =
     (''Welcome.'', ''en'', ''/tmp/slide_2_u2.mp3'') \<and>
   llm_log (snd (main env_ok inputs_ok world0)) ! 1 =
     script_request (ClaudePPTScriptGenerator_init ''sk'') []"
proof -
  have scrs: "run_scripts env_ok inputs_ok deck2 world0 = [''Welcome.'', ''Welcome.'']"
    by (simp add: run_scripts_def extract_slide_text_def deck2_def script_of_def env_ok_def)
  have texts: "extract_slide_text deck2 = [''Intro '', []]"
    by (simp add: extract_slide_text_def deck2_def)
  have paths: "audio_paths env_ok 1 (Suc (draws world0)) (length [''Intro '', []]) =
       [''/tmp/slide_1_u1.mp3'', ''/tmp/slide_2_u2.mp3'']"
    by code_simp
  have "fst (main env_ok inputs_ok world0) =
     Rendered (extract_slide_text deck2) (run_scripts env_ok inputs_ok deck2 world0)
       (audio_paths env_ok 1 (Suc (draws world0)) (length (extract_slide_text deck2)))"
    by (rule main_rendered_outcome [where data = "''PK''"])
       (simp_all add: inputs_ok_def env_ok_def)
  then have "fst (main env_ok inputs_ok world0) =
     Rendered [''Intro '', []] [''Welcome.'', ''Welcome.'']
        [''/tmp/slide_1_u1.mp3'', ''/tmp/slide_2_u2.mp3'']"
    unfolding scrs texts paths .
  then have run: "main env_ok inputs_ok world0 =
     (Rendered [''Intro '', []] [''Welcome.'', ''Welcome.'']
        [''/tmp/slide_1_u1.mp3'', ''/tmp/slide_2_u2.mp3''],
      snd (main env_ok inputs_ok world0))"
    by (simp add: prod_eq_iff)
  have one: "(1::nat) < length [''Intro '', []]" by simp
  have z: "length (tts_log world0) = 0" "length (llm_log world0) = 0"
    "selected_voice inputs_ok = English_US" "api_key inputs_ok = ''sk''"
    by (simp_all add: world0_def inputs_ok_def)
  from alignment_invariant [OF run] one have
    "tts_log (snd (main env_ok inputs_ok world0)) ! (length (tts_log world0) + 1) =
       ([''Welcome.'', ''Welcome.''] ! 1, voice_options (selected_voice inputs_ok),
        [''/tmp/slide_1_u1.mp3'', ''/tmp/slide_2_u2.mp3''] ! 1)"
    and "llm_log (snd (main env_ok inputs_ok world0)) ! (length (llm_log world0) + 1) =
       script_request (ClaudePPTScriptGenerator_init (api_key inputs_ok)) ([''Intro '', []] ! 1)"
    by blast+
  with run show ?thesis unfolding z by simp
qed

end
